theory Spec2Isabelle
  imports Complex_Main
begin

section \<open>Data model of \<open>src/app/page.tsx\<close>\<close>

text \<open>
  The component \<open>StockBrokerClient\<close> keeps its session in React state cells, two refs, the
  browser's \<open>localStorage\<close> and one or more \<open>WebSocket\<close> objects. Every handler of the
  source is embedded as a function from the state before the call to the state after it.
  A state setter is an assignment to the cell: no handler reads a cell after setting it,
  and the functional updaters (\<open>prev => ...\<close>) see the latest value.
\<close>

datatype WSStatus = St_connected | St_disconnected | St_error

datatype MessageType = Sent | Received | Error | Success | Info

datatype StreamingType = ltpinfo | marketPicture | login | logout

datatype RequestType = subscribe | unsubscribe

text \<open>
  A value produced by \<open>JSON.parse\<close>, or built by an object literal before
  \<open>JSON.stringify\<close>. An object is a finite map from property names to values; a property
  that is missing reads as \<open>undefined\<close>, which is \<open>None\<close> here.
\<close>

datatype json =
    JNull
  | JBool bool
  | JNum rat
  | JStr string
  | JArr "json list"
  | JObj "string \<Rightarrow> json option"

text \<open>
  The text of a log entry: a literal string, or \<open>JSON.stringify(v, null, 2)\<close> of a value.
  The wall-clock \<open>timestamp\<close> of the source's \<open>Message\<close> is not a function of the state and
  is left out.
\<close>

datatype content = Text string | Pretty json

record Message =
  mtype :: MessageType
  content :: content

record SubscribedToken =
  token :: string
  stype :: StreamingType

record SavedCredentials =
  gscid :: string
  gcid :: string
  sessionId :: string
  deviceId :: string

text \<open>What a \<open>localStorage\<close> key holds: the JSON text of a value, or a plain string.\<close>

datatype stored =
    StoredSubs "SubscribedToken list"
  | StoredCreds SavedCredentials
  | StoredText string

datatype ReadyState = CONNECTING | OPEN | CLOSING | CLOSED

text \<open>
  A \<open>WebSocket\<close> object: its \<open>readyState\<close>, the frames it has transmitted, and the
  credentials its handlers closed over when \<open>connectWebSocket\<close> created it (the handlers
  read \<open>gscid\<close>, \<open>gcid\<close> and \<open>sendLogin\<close> from that render).
\<close>

record socket =
  readyState :: ReadyState
  transmitted :: "json list"
  closure :: SavedCredentials

type_synonym MarketData = "string \<Rightarrow> json option"

text \<open>
  \<open>credentials\<close> bundles the four form cells \<open>gscid\<close>, \<open>gcid\<close>, \<open>sessionId\<close>, \<open>deviceId\<close>.
  \<open>subsIdentity\<close> is the identity of the array held in \<open>subscribedTokens\<close>: every call of
  \<open>setSubscribedTokens\<close> in the source stores a freshly built array, and React compares
  effect dependencies with \<open>Object.is\<close>. \<open>wsRef\<close> is an index into \<open>sockets\<close>, the
  WebSocket objects created so far; \<open>timers\<close> are the pending \<open>setTimeout(sendLogin, 500)\<close>
  calls, each with the credentials its \<open>sendLogin\<close> closed over.
\<close>

record state =
  wsStatus :: WSStatus
  isLoggedIn :: bool
  messages :: "Message list"
  subscribedTokens :: "SubscribedToken list"
  subsIdentity :: nat
  marketData :: "string \<Rightarrow> MarketData option"
  credentials :: SavedCredentials
  newToken :: string
  streamingType :: StreamingType
  wsRef :: "nat option"
  pendingSubscriptionsRef :: "SubscribedToken list"
  localStorage :: "string \<Rightarrow> stored option"
  sockets :: "socket list"
  timers :: "SavedCredentials list"

definition STORAGE_KEYS_subscriptions :: string where
  "STORAGE_KEYS_subscriptions = ''stockBroker_subscriptions''"

definition STORAGE_KEYS_credentials :: string where
  "STORAGE_KEYS_credentials = ''stockBroker_credentials''"

definition STORAGE_KEYS_wasLoggedIn :: string where
  "STORAGE_KEYS_wasLoggedIn = ''stockBroker_wasLoggedIn''"

section \<open>JavaScript operators used by the handlers\<close>

fun streamingType_str :: "StreamingType \<Rightarrow> string" where
  "streamingType_str ltpinfo = ''ltpinfo''"
| "streamingType_str marketPicture = ''marketPicture''"
| "streamingType_str login = ''login''"
| "streamingType_str logout = ''logout''"

fun requestType_str :: "RequestType \<Rightarrow> string" where
  "requestType_str subscribe = ''subscribe''"
| "requestType_str unsubscribe = ''unsubscribe''"

text \<open>
  \<open>v.k\<close> on a value that is not \<open>null\<close>: an object gives its property; a number, string,
  boolean or array has none of the names the handlers read, so the result is
  \<open>undefined\<close>. On \<open>null\<close> the access throws a TypeError (\<open>Inl ()\<close>).
\<close>

fun get_prop :: "json \<Rightarrow> string \<Rightarrow> unit + json option" where
  "get_prop JNull k = Inl ()"
| "get_prop (JObj m) k = Inr (m k)"
| "get_prop v k = Inr None"

text \<open>\<open>r?.k\<close> where \<open>r\<close> may be \<open>undefined\<close> or \<open>null\<close>: both short-circuit to \<open>undefined\<close>.\<close>

fun opt_chain :: "json option \<Rightarrow> string \<Rightarrow> json option" where
  "opt_chain None k = None"
| "opt_chain (Some JNull) k = None"
| "opt_chain (Some (JObj m)) k = m k"
| "opt_chain (Some v) k = None"

text \<open>Truthiness of a value in a condition.\<close>

fun truthy :: "json option \<Rightarrow> bool" where
  "truthy None = False"
| "truthy (Some JNull) = False"
| "truthy (Some (JBool b)) = b"
| "truthy (Some (JNum n)) = (n \<noteq> 0)"
| "truthy (Some (JStr s)) = (s \<noteq> [])"
| "truthy (Some (JArr xs)) = True"
| "truthy (Some (JObj m)) = True"

text \<open>\<open>a ?? b\<close>: the right operand when the left one is \<open>undefined\<close> or \<open>null\<close>.\<close>

fun nullish :: "json option \<Rightarrow> json option \<Rightarrow> json option" where
  "nullish None b = b"
| "nullish (Some JNull) b = b"
| "nullish (Some v) b = Some v"

text \<open>The own properties of a value that an object spread \<open>...v\<close> copies.\<close>

fun own_fields :: "json \<Rightarrow> string \<Rightarrow> json option" where
  "own_fields (JObj m) = m"
| "own_fields v = Map.empty"

text \<open>
  A computed property name \<open>[symbol]\<close>: a string is the key itself; any other value goes
  through the language's \<open>ToString\<close>, which is taken as the parameter \<open>toStr\<close>.
\<close>

fun propertyKey :: "(json \<Rightarrow> string) \<Rightarrow> json \<Rightarrow> string" where
  "propertyKey toStr (JStr s) = s"
| "propertyKey toStr v = toStr v"

text \<open>
  \<open>s.split(',')\<close>, \<open>s.trim()\<close> and \<open>filter(Boolean)\<close> on strings of one-byte characters;
  the white space of \<open>trim\<close> in that range is TAB, LF, VT, FF, CR, SP and NBSP.
\<close>

fun split_comma :: "string \<Rightarrow> string list" where
  "split_comma [] = [[]]"
| "split_comma (c # cs) =
     (if c = CHR '','' then [] # split_comma cs
      else (case split_comma cs of
              [] \<Rightarrow> [[c]]
            | w # ws \<Rightarrow> (c # w) # ws))"

definition is_ws :: "char \<Rightarrow> bool" where
  "is_ws c = (of_char c \<in> {9, 10, 11, 12, 13, 32, 160 :: nat})"

definition trim :: "string \<Rightarrow> string" where
  "trim s = rev (dropWhile is_ws (rev (dropWhile is_ws s)))"

definition parse_tokens :: "string \<Rightarrow> string list" where
  "parse_tokens s = filter (\<lambda>t. t \<noteq> []) (map trim (split_comma s))"

section \<open>Protocol codec: outbound requests\<close>

text \<open>
  \<open>{ request: { data: { symbols: [{ symbol: token }] }, gscid, gcid, request_type,
  streamingType } }\<close>, built by the replay loop, \<open>subscribeToken\<close> and \<open>unsubscribeToken\<close>.
\<close>

definition data_request :: "RequestType \<Rightarrow> SavedCredentials \<Rightarrow> string \<Rightarrow> StreamingType \<Rightarrow> json" where
  "data_request rt c tok ty =
     JObj [''request'' \<mapsto> JObj
       [''data'' \<mapsto> JObj [''symbols'' \<mapsto> JArr [JObj [''symbol'' \<mapsto> JStr tok]]],
        ''gscid'' \<mapsto> JStr (gscid c),
        ''gcid'' \<mapsto> JStr (gcid c),
        ''request_type'' \<mapsto> JStr (requestType_str rt),
        ''streamingType'' \<mapsto> JStr (streamingType_str ty)]]"

text \<open>
  \<open>{ request: { response_format: "json", request_type, streamingType, data: { gscid, gcid,
  sessionId, deviceId, device_type: "0" } } }\<close>, built by \<open>sendLogin\<close> and \<open>sendLogout\<close>.
\<close>

definition session_request :: "RequestType \<Rightarrow> StreamingType \<Rightarrow> SavedCredentials \<Rightarrow> json" where
  "session_request rt ty c =
     JObj [''request'' \<mapsto> JObj
       [''response_format'' \<mapsto> JStr ''json'',
        ''request_type'' \<mapsto> JStr (requestType_str rt),
        ''streamingType'' \<mapsto> JStr (streamingType_str ty),
        ''data'' \<mapsto> JObj
          [''gscid'' \<mapsto> JStr (gscid c),
           ''gcid'' \<mapsto> JStr (gcid c),
           ''sessionId'' \<mapsto> JStr (sessionId c),
           ''deviceId'' \<mapsto> JStr (deviceId c),
           ''device_type'' \<mapsto> JStr ''0'']]]"

text \<open>Readers of a transmitted frame: its request type, stream kind and first symbol.\<close>

definition frame_field :: "json \<Rightarrow> string \<Rightarrow> json option" where
  "frame_field f k = opt_chain (opt_chain (Some f) ''request'') k"

definition frame_symbol :: "json \<Rightarrow> json option" where
  "frame_symbol f =
     (case opt_chain (frame_field f ''data'') ''symbols'' of
        Some (JArr (x # xs)) \<Rightarrow> opt_chain (Some x) ''symbol''
      | _ \<Rightarrow> None)"

section \<open>Transport\<close>

definition current_socket :: "state \<Rightarrow> socket option" where
  "current_socket s =
     (case wsRef s of
        None \<Rightarrow> None
      | Some i \<Rightarrow> if i < length (sockets s) then Some (sockets s ! i) else None)"

text \<open>\<open>wsRef.current && wsRef.current.readyState === WebSocket.OPEN\<close>.\<close>

definition is_open :: "state \<Rightarrow> bool" where
  "is_open s = (case current_socket s of None \<Rightarrow> False | Some k \<Rightarrow> readyState k = OPEN)"

text \<open>
  \<open>socket.send(text)\<close>: throws InvalidStateError while CONNECTING (\<open>None\<close>), transmits
  when OPEN, and silently discards the data when CLOSING or CLOSED.
\<close>

definition socket_send :: "json \<Rightarrow> socket \<Rightarrow> socket option" where
  "socket_send f k =
     (case readyState k of
        CONNECTING \<Rightarrow> None
      | OPEN \<Rightarrow> Some (k\<lparr>transmitted := transmitted k @ [f]\<rparr>)
      | CLOSING \<Rightarrow> Some k
      | CLOSED \<Rightarrow> Some k)"

text \<open>\<open>wsRef.current?.send(JSON.stringify(request))\<close>: nothing happens on a null ref.\<close>

definition ws_send :: "json \<Rightarrow> state \<Rightarrow> state option" where
  "ws_send f s =
     (case wsRef s of
        None \<Rightarrow> Some s
      | Some i \<Rightarrow>
          if i < length (sockets s) then
            (case socket_send f (sockets s ! i) of
               None \<Rightarrow> None
             | Some k \<Rightarrow> Some (s\<lparr>sockets := (sockets s)[i := k]\<rparr>))
          else Some s)"

text \<open>\<open>socket.close()\<close>: starts the closing handshake unless already closing or closed.\<close>

definition socket_close :: "socket \<Rightarrow> socket" where
  "socket_close k =
     (case readyState k of
        CONNECTING \<Rightarrow> k\<lparr>readyState := CLOSING\<rparr>
      | OPEN \<Rightarrow> k\<lparr>readyState := CLOSING\<rparr>
      | CLOSING \<Rightarrow> k
      | CLOSED \<Rightarrow> k)"

definition ws_close :: "state \<Rightarrow> state" where
  "ws_close s =
     (case wsRef s of
        None \<Rightarrow> s
      | Some i \<Rightarrow>
          if i < length (sockets s)
          then s\<lparr>sockets := (sockets s)[i := socket_close (sockets s ! i)]\<rparr>
          else s)"

text \<open>The frames that have gone out on the transport \<open>wsRef\<close> points to.\<close>

definition wire :: "state \<Rightarrow> json list" where
  "wire s = (case current_socket s of None \<Rightarrow> [] | Some k \<Rightarrow> transmitted k)"

section \<open>Handlers\<close>

definition addMessage :: "MessageType \<Rightarrow> content \<Rightarrow> state \<Rightarrow> state" where
  "addMessage ty c s = s\<lparr>messages := messages s @ [\<lparr>mtype = ty, content = c\<rparr>]\<rparr>"

definition setSubscribedTokens :: "SubscribedToken list \<Rightarrow> state \<Rightarrow> state" where
  "setSubscribedTokens xs s = s\<lparr>subscribedTokens := xs, subsIdentity := Suc (subsIdentity s)\<rparr>"

definition removeItem :: "string \<Rightarrow> state \<Rightarrow> state" where
  "removeItem k s = s\<lparr>localStorage := (localStorage s)(k := None)\<rparr>"

definition setItem :: "string \<Rightarrow> stored \<Rightarrow> state \<Rightarrow> state" where
  "setItem k v s = s\<lparr>localStorage := (localStorage s)(k \<mapsto> v)\<rparr>"

text \<open>
  \<open>xs.forEach(x => { wsRef.current?.send(JSON.stringify(mk x)); addMessage('sent', log x) })\<close>.
  A throwing \<open>send\<close> ends the loop with the state reached (\<open>Inl\<close>).
\<close>

fun forEach_send :: "('a \<Rightarrow> json) \<Rightarrow> ('a \<Rightarrow> content) \<Rightarrow> 'a list \<Rightarrow> state \<Rightarrow> state + state" where
  "forEach_send mk lg [] s = Inr s"
| "forEach_send mk lg (x # xs) s =
     (case ws_send (mk x) s of
        None \<Rightarrow> Inl s
      | Some s1 \<Rightarrow> forEach_send mk lg xs (addMessage Sent (lg x) s1))"

subsection \<open>\<open>connectWebSocket\<close> and the transport callbacks it installs\<close>

text \<open>
  \<open>connectWebSocket\<close> has no guard: it constructs a WebSocket and stores it in \<open>wsRef\<close>.
  \<open>cl\<close> are the credential cells of the render whose \<open>connectWebSocket\<close> is called, which
  the new callbacks close over; \<open>failure\<close> is the message of the exception the
  constructor throws, if it throws.
\<close>

definition connectWebSocket :: "SavedCredentials \<Rightarrow> string option \<Rightarrow> state \<Rightarrow> state" where
  "connectWebSocket cl failure s =
     (case failure of
        Some msg \<Rightarrow> addMessage Error (Text (''Connection failed: '' @ msg)) s
      | None \<Rightarrow>
          s\<lparr>sockets := sockets s @
                [\<lparr>readyState = CONNECTING, transmitted = [], closure = cl\<rparr>],
            wsRef := Some (length (sockets s))\<rparr>)"

definition onopen :: "SavedCredentials \<Rightarrow> state \<Rightarrow> state" where
  "onopen cl s =
     (let s1 = addMessage Success (Text ''WebSocket connected'') (s\<lparr>wsStatus := St_connected\<rparr>)
      in if pendingSubscriptionsRef s1 \<noteq> [] \<or>
            localStorage s1 STORAGE_KEYS_wasLoggedIn = Some (StoredText ''true'')
         then s1\<lparr>timers := timers s1 @ [cl]\<rparr>
         else s1)"

text \<open>
  Login detection: \<open>parsed.response?.svcName === "Broadcast" &&
  parsed.response?.streamingType === "login"\<close>, on the value of \<open>parsed.response\<close>.
\<close>

definition is_login_confirmation :: "json option \<Rightarrow> bool" where
  "is_login_confirmation r =
     (opt_chain r ''svcName'' = Some (JStr ''Broadcast'') \<and>
      opt_chain r ''streamingType'' = Some (JStr ''login''))"

definition auto_subscribe_text :: "SubscribedToken \<Rightarrow> content" where
  "auto_subscribe_text sub =
     Text (''Auto-subscribe: '' @ token sub @ '' ('' @ streamingType_str (stype sub) @ '')'')"

text \<open>The auto-resubscribe loop over \<open>pendingSubscriptionsRef.current\<close>.\<close>

definition replay :: "SavedCredentials \<Rightarrow> state \<Rightarrow> state + state" where
  "replay cl s =
     (if length (pendingSubscriptionsRef s) > 0
      then forEach_send (\<lambda>sub. data_request subscribe cl (token sub) (stype sub))
             auto_subscribe_text (pendingSubscriptionsRef s) s
      else Inr s)"

text \<open>
  Market data extraction: \<open>(marketInfo, symbol)\<close> from \<open>parsed.response.data\<close> when that is
  truthy, else from \<open>parsed\<close> itself when \<open>parsed.symbol\<close> is truthy.
\<close>

definition extract_market :: "json \<Rightarrow> json option \<Rightarrow> json option \<times> json option" where
  "extract_market parsed r =
     (let d = opt_chain r ''data''
      in if truthy d then (d, opt_chain d ''symbol'')
         else if truthy (opt_chain (Some parsed) ''symbol'')
         then (Some parsed, opt_chain (Some parsed) ''symbol'')
         else (None, None))"

definition or_null :: "json option \<Rightarrow> json" where
  "or_null x = (case x of None \<Rightarrow> JNull | Some v \<Rightarrow> v)"

text \<open>
  The object literal \<open>normalized\<close>: the canonical fields first, then \<open>...marketInfo\<close>, whose
  own properties overwrite those written before them.
\<close>

definition normalized :: "json \<Rightarrow> json \<Rightarrow> MarketData" where
  "normalized symbol marketInfo =
     (let f = own_fields marketInfo
      in [''symbol'' \<mapsto> symbol,
          ''ltp'' \<mapsto> or_null (nullish (f ''ltp'') (Some JNull)),
          ''change'' \<mapsto> or_null (nullish (f ''change'') (Some JNull)),
          ''changePercent'' \<mapsto>
             or_null (nullish (nullish (f ''p_change'') (f ''changePercent'')) (Some JNull)),
          ''volume'' \<mapsto>
             or_null (nullish (nullish (f ''tot_vol'') (f ''volume'')) (Some JNull)),
          ''high'' \<mapsto> or_null (nullish (f ''high'') (Some JNull)),
          ''low'' \<mapsto> or_null (nullish (f ''low'') (Some JNull)),
          ''open'' \<mapsto> or_null (nullish (f ''open'') (Some JNull)),
          ''close'' \<mapsto> or_null (nullish (f ''close'') (Some JNull))]
         ++ f)"

text \<open>\<open>setMarketData(prev => ({ ...prev, [symbol]: normalized }))\<close> under \<open>if (symbol)\<close>.\<close>

definition handle_market :: "(json \<Rightarrow> string) \<Rightarrow> json \<Rightarrow> json option \<Rightarrow> state \<Rightarrow> state" where
  "handle_market toStr parsed r s =
     (case extract_market parsed r of
        (Some marketInfo, Some symbol) \<Rightarrow>
          if truthy (Some symbol)
          then s\<lparr>marketData :=
                   (marketData s)(propertyKey toStr symbol \<mapsto> normalized symbol marketInfo)\<rparr>
          else s
      | _ \<Rightarrow> s)"

text \<open>
  The body of the \<open>try\<close> block after the first log entry. \<open>Inl\<close> carries the state reached
  when an exception is thrown: \<open>parsed.response\<close> on \<open>null\<close>, or a \<open>send\<close> while CONNECTING.
  (The dash in the source's success text is an en dash; it is written as a hyphen.)
\<close>

definition onmessage_body :: "(json \<Rightarrow> string) \<Rightarrow> SavedCredentials \<Rightarrow> json \<Rightarrow> state \<Rightarrow> state + state" where
  "onmessage_body toStr cl parsed s =
     (case get_prop parsed ''response'' of
        Inl u \<Rightarrow> Inl s
      | Inr r \<Rightarrow>
          (case (if is_login_confirmation r
                 then replay cl
                        (addMessage Success
                           (Text ''Login successful - auto-resubscribing tokens...'')
                           (s\<lparr>isLoggedIn := True\<rparr>))
                 else Inr s) of
             Inl s1 \<Rightarrow> Inl s1
           | Inr s1 \<Rightarrow> Inr (handle_market toStr parsed r s1)))"

text \<open>
  \<open>data\<close> is \<open>event.data\<close> and \<open>parsed\<close> the result of \<open>JSON.parse(event.data)\<close>, \<open>None\<close> when
  it throws. The \<open>catch\<close> logs the raw text and keeps the updates made before the throw.
\<close>

definition onmessage :: "(json \<Rightarrow> string) \<Rightarrow> SavedCredentials \<Rightarrow> string \<Rightarrow> json option \<Rightarrow> state \<Rightarrow> state" where
  "onmessage toStr cl data parsed s =
     (case parsed of
        None \<Rightarrow> addMessage Received (Text data) s
      | Some p \<Rightarrow>
          (case onmessage_body toStr cl p (addMessage Received (Pretty p) s) of
             Inl s1 \<Rightarrow> addMessage Received (Text data) s1
           | Inr s1 \<Rightarrow> s1))"

definition onerror :: "state \<Rightarrow> state" where
  "onerror s = (addMessage Error (Text ''WebSocket error occurred'') s)\<lparr>wsStatus := St_error\<rparr>"

definition onclose :: "state \<Rightarrow> state" where
  "onclose s =
     addMessage Info (Text ''WebSocket disconnected'')
       (s\<lparr>wsStatus := St_disconnected, isLoggedIn := False\<rparr>)"

subsection \<open>Commands\<close>

definition disconnectWebSocket :: "state \<Rightarrow> state" where
  "disconnectWebSocket s =
     (let s1 = (ws_close s)\<lparr>wsRef := None\<rparr>;
          s2 = s1\<lparr>isLoggedIn := False\<rparr>;
          s3 = setSubscribedTokens [] s2;
          s4 = s3\<lparr>marketData := Map.empty\<rparr>;
          s5 = s4\<lparr>pendingSubscriptionsRef := []\<rparr>;
          s6 = removeItem STORAGE_KEYS_subscriptions s5
      in removeItem STORAGE_KEYS_wasLoggedIn s6)"

text \<open>
  \<open>sendLogin\<close> reads the credentials of the render that created it: \<open>c\<close>. A \<open>send\<close> that
  throws is not caught here and ends the handler.
\<close>

definition sendLogin :: "SavedCredentials \<Rightarrow> state \<Rightarrow> state" where
  "sendLogin c s =
     (if \<not> is_open s then addMessage Error (Text ''Not connected'') s
      else (case ws_send (session_request subscribe login c) s of
              None \<Rightarrow> s
            | Some s1 \<Rightarrow> addMessage Sent (Pretty (session_request subscribe login c)) s1))"

definition sendLogout :: "state \<Rightarrow> state" where
  "sendLogout s =
     (if \<not> is_open s then s
      else (case ws_send (session_request unsubscribe logout (credentials s)) s of
              None \<Rightarrow> s
            | Some s1 \<Rightarrow>
                (let s2 = addMessage Sent
                            (Pretty (session_request unsubscribe logout (credentials s))) s1;
                     s3 = s2\<lparr>isLoggedIn := False\<rparr>;
                     s4 = setSubscribedTokens [] s3;
                     s5 = s4\<lparr>marketData := Map.empty\<rparr>;
                     s6 = s5\<lparr>pendingSubscriptionsRef := []\<rparr>;
                     s7 = removeItem STORAGE_KEYS_wasLoggedIn s6
                 in removeItem STORAGE_KEYS_subscriptions s7)))"

text \<open>The de-duplication key \<open>`${i.token}-${i.type}`\<close>.\<close>

definition sub_key :: "SubscribedToken \<Rightarrow> string" where
  "sub_key i = token i @ ''-'' @ streamingType_str (stype i)"

text \<open>
  The updater of \<open>setSubscribedTokens\<close> in \<open>subscribeToken\<close>: \<open>existing\<close> is built from
  \<open>prev\<close> alone, and \<open>newSubs\<close> is filtered against it.
\<close>

definition merge_subscriptions :: "SubscribedToken list \<Rightarrow> SubscribedToken list \<Rightarrow> SubscribedToken list" where
  "merge_subscriptions prev newSubs =
     prev @ filter (\<lambda>i. sub_key i \<notin> set (map sub_key prev)) newSubs"

definition subscribeToken :: "state \<Rightarrow> state" where
  "subscribeToken s =
     (if \<not> is_open s \<or> \<not> isLoggedIn s
      then addMessage Error
             (Text (if \<not> isLoggedIn s then ''Please login first'' else ''Not connected'')) s
      else
        (let tokens = parse_tokens (newToken s);
             mk = (\<lambda>t. data_request subscribe (credentials s) t (streamingType s))
         in case forEach_send mk (\<lambda>t. Pretty (mk t)) tokens s of
              Inl s1 \<Rightarrow> s1
            | Inr s1 \<Rightarrow>
                (let newSubs = map (\<lambda>t. \<lparr>token = t, stype = streamingType s\<rparr>) tokens;
                     updated = merge_subscriptions (subscribedTokens s1) newSubs;
                     s2 = setSubscribedTokens updated s1;
                     s3 = s2\<lparr>pendingSubscriptionsRef := updated\<rparr>
                 in s3\<lparr>newToken := []\<rparr>)))"

definition unsubscribeToken :: "string \<Rightarrow> StreamingType \<Rightarrow> state \<Rightarrow> state" where
  "unsubscribeToken tok ty s =
     (if \<not> is_open s then s
      else (case ws_send (data_request unsubscribe (credentials s) tok ty) s of
              None \<Rightarrow> s
            | Some s1 \<Rightarrow>
                (let s2 = addMessage Sent
                            (Pretty (data_request unsubscribe (credentials s) tok ty)) s1;
                     updated = filter (\<lambda>i. \<not> (token i = tok \<and> stype i = ty))
                                 (subscribedTokens s);
                     s3 = setSubscribedTokens updated s2;
                     s4 = s3\<lparr>pendingSubscriptionsRef := updated\<rparr>
                 in s4\<lparr>marketData := (marketData s4)(tok := None)\<rparr>)))"

section \<open>The component: rendering gates, events and effects\<close>

text \<open>
  What can happen to the mounted component: a click on one of its buttons (each button is
  rendered or enabled under the condition written in the JSX), an edit of a form field, a
  callback of a WebSocket, or a pending timer firing.
\<close>

datatype event =
    ClickConnect "string option"
  | ClickDisconnect
  | ClickLogin
  | ClickLogout
  | ClickSubscribe
  | ClickUnsubscribe nat
  | EditGscid string
  | EditGcid string
  | EditSessionId string
  | EditDeviceId string
  | EditNewToken string
  | SelectStreamingType StreamingType
  | WsOpen nat
  | WsMessage nat string "json option"
  | WsError nat
  | WsClose nat
  | TimerFire nat

definition set_readyState :: "nat \<Rightarrow> ReadyState \<Rightarrow> state \<Rightarrow> state" where
  "set_readyState i r s = s\<lparr>sockets := (sockets s)[i := (sockets s ! i)\<lparr>readyState := r\<rparr>]\<rparr>"

text \<open>
  The handler an event runs. The Connect button is rendered only while
  \<open>wsStatus === 'disconnected'\<close> and the Disconnect button otherwise; Login is disabled
  when \<open>wsStatus !== 'connected' || isLoggedIn\<close>, Logout when \<open>!isLoggedIn\<close>, Subscribe
  when \<open>!isLoggedIn || !newToken.trim()\<close>; each row of the subscription list has its own
  unsubscribe button; the stream kind select offers \<open>ltpinfo\<close> and \<open>marketPicture\<close>.
  A socket delivers \<open>open\<close> while CONNECTING and messages while OPEN; the browser sets
  \<open>readyState\<close> to CLOSED before it fires \<open>error\<close> or \<open>close\<close>.
\<close>

definition handle :: "(json \<Rightarrow> string) \<Rightarrow> event \<Rightarrow> state \<Rightarrow> state" where
  "handle toStr e s =
     (case e of
        ClickConnect failure \<Rightarrow>
          if wsStatus s = St_disconnected
          then connectWebSocket (credentials s) failure s
          else s
      | ClickDisconnect \<Rightarrow>
          if wsStatus s \<noteq> St_disconnected then disconnectWebSocket s else s
      | ClickLogin \<Rightarrow>
          if wsStatus s \<noteq> St_connected \<or> isLoggedIn s then s
          else sendLogin (credentials s) s
      | ClickLogout \<Rightarrow> if \<not> isLoggedIn s then s else sendLogout s
      | ClickSubscribe \<Rightarrow>
          if \<not> isLoggedIn s \<or> trim (newToken s) = [] then s else subscribeToken s
      | ClickUnsubscribe n \<Rightarrow>
          if n < length (subscribedTokens s)
          then unsubscribeToken (token (subscribedTokens s ! n))
                 (stype (subscribedTokens s ! n)) s
          else s
      | EditGscid v \<Rightarrow> s\<lparr>credentials := (credentials s)\<lparr>gscid := v\<rparr>\<rparr>
      | EditGcid v \<Rightarrow> s\<lparr>credentials := (credentials s)\<lparr>gcid := v\<rparr>\<rparr>
      | EditSessionId v \<Rightarrow> s\<lparr>credentials := (credentials s)\<lparr>sessionId := v\<rparr>\<rparr>
      | EditDeviceId v \<Rightarrow> s\<lparr>credentials := (credentials s)\<lparr>deviceId := v\<rparr>\<rparr>
      | EditNewToken v \<Rightarrow> s\<lparr>newToken := v\<rparr>
      | SelectStreamingType ty \<Rightarrow>
          if ty = ltpinfo \<or> ty = marketPicture then s\<lparr>streamingType := ty\<rparr> else s
      | WsOpen i \<Rightarrow>
          if i < length (sockets s) \<and> readyState (sockets s ! i) = CONNECTING
          then onopen (closure (sockets s ! i)) (set_readyState i OPEN s)
          else s
      | WsMessage i data parsed \<Rightarrow>
          if i < length (sockets s) \<and> readyState (sockets s ! i) = OPEN
          then onmessage toStr (closure (sockets s ! i)) data parsed s
          else s
      | WsError i \<Rightarrow>
          if i < length (sockets s) then onerror (set_readyState i CLOSED s) else s
      | WsClose i \<Rightarrow>
          if i < length (sockets s) then onclose (set_readyState i CLOSED s) else s
      | TimerFire n \<Rightarrow>
          if n < length (timers s)
          then sendLogin (timers s ! n) (s\<lparr>timers := take n (timers s) @ drop (Suc n) (timers s)\<rparr>)
          else s)"

text \<open>
  The three saving effects, run in declaration order after the render that follows a
  handler; each runs when one of its dependencies differs from the previous render:
  \<open>saveCredentials\<close> on the four credential cells, \<open>saveSubscriptions(subscribedTokens)\<close>
  on the array in \<open>subscribedTokens\<close>, and
  \<open>localStorage.setItem(STORAGE_KEYS.wasLoggedIn, isLoggedIn.toString())\<close> on \<open>isLoggedIn\<close>.
\<close>

definition effects :: "state \<Rightarrow> state \<Rightarrow> state" where
  "effects old new =
     (let s1 = (if credentials new \<noteq> credentials old
                then setItem STORAGE_KEYS_credentials (StoredCreds (credentials new)) new
                else new);
          s2 = (if subsIdentity new \<noteq> subsIdentity old
                then setItem STORAGE_KEYS_subscriptions (StoredSubs (subscribedTokens new)) s1
                else s1)
      in if isLoggedIn new \<noteq> isLoggedIn old
         then setItem STORAGE_KEYS_wasLoggedIn
                (StoredText (if isLoggedIn new then ''true'' else ''false'')) s2
         else s2)"

text \<open>One event from start to finish: the handler, the render, the effects.\<close>

definition dispatch :: "(json \<Rightarrow> string) \<Rightarrow> event \<Rightarrow> state \<Rightarrow> state" where
  "dispatch toStr e s = effects s (handle toStr e s)"

fun run :: "(json \<Rightarrow> string) \<Rightarrow> event list \<Rightarrow> state \<Rightarrow> state" where
  "run toStr [] s = s"
| "run toStr (e # es) s = run toStr es (dispatch toStr e s)"

text \<open>
  The cells of the first render (the \<open>useState\<close> and \<open>useRef\<close> initial values) over a
  given \<open>localStorage\<close>.
\<close>

definition default_credentials :: SavedCredentials where
  "default_credentials =
     \<lparr>gscid = ''KS02'', gcid = ''218'', sessionId = ''dummy-session'',
      deviceId = ''dummy-device''\<rparr>"

definition first_render :: "(string \<Rightarrow> stored option) \<Rightarrow> state" where
  "first_render ls =
     \<lparr>wsStatus = St_disconnected, isLoggedIn = False, messages = [],
      subscribedTokens = [], subsIdentity = 0, marketData = Map.empty,
      credentials = default_credentials,
      newToken = ''NSECM:2885'', streamingType = ltpinfo, wsRef = None,
      pendingSubscriptionsRef = [], localStorage = ls, sockets = [], timers = []\<rparr>"

text \<open>
  The effect that runs once on mount (\<open>Load from localStorage on mount\<close>). It restores
  the saved credentials and the saved subscriptions (into the state cell and into
  \<open>pendingSubscriptionsRef\<close>), and connects when the login flag is \<open>true\<close> and both saved
  texts are non-empty. Its \<open>connectWebSocket\<close> is the one of the first render, so the
  callbacks close over the initial credentials. The store is taken to hold under each key
  what this component writes there, or nothing: for any other content the cells are left
  as they are, which the code does only for a text that fails \<open>JSON.parse\<close>.
\<close>

fun stored_truthy :: "stored option \<Rightarrow> bool" where
  "stored_truthy None = False"
| "stored_truthy (Some (StoredText t)) = (t \<noteq> [])"
| "stored_truthy (Some v) = True"

definition load_saved :: "string option \<Rightarrow> state \<Rightarrow> state" where
  "load_saved failure s =
     (let savedCreds = localStorage s STORAGE_KEYS_credentials;
          s1 = (case savedCreds of
                  Some (StoredCreds c) \<Rightarrow> s\<lparr>credentials := c\<rparr>
                | _ \<Rightarrow> s);
          savedSubs = localStorage s STORAGE_KEYS_subscriptions;
          s2 = (case savedSubs of
                  Some (StoredSubs tokens) \<Rightarrow>
                    (setSubscribedTokens tokens s1)\<lparr>pendingSubscriptionsRef := tokens\<rparr>
                | _ \<Rightarrow> s1);
          wasLoggedIn = (localStorage s STORAGE_KEYS_wasLoggedIn = Some (StoredText ''true''))
      in if wasLoggedIn \<and> stored_truthy savedCreds \<and> stored_truthy savedSubs
         then connectWebSocket (credentials s) failure s2
         else s2)"

text \<open>
  Mounting the component: the first render, then every effect once in declaration order
  (the loading effect, then the three saving effects with the values of the first
  render), then the render of the loaded cells with the saving effects whose
  dependencies changed.
\<close>

definition mount :: "string option \<Rightarrow> (string \<Rightarrow> stored option) \<Rightarrow> state" where
  "mount failure ls =
     (let s0 = first_render ls;
          s1 = load_saved failure s0;
          s2 = setItem STORAGE_KEYS_credentials (StoredCreds (credentials s0)) s1;
          s3 = setItem STORAGE_KEYS_subscriptions (StoredSubs (subscribedTokens s0)) s2;
          s4 = setItem STORAGE_KEYS_wasLoggedIn
                 (StoredText (if isLoggedIn s0 then ''true'' else ''false'')) s3
      in effects s0 s4)"

section \<open>Auxiliary definitions for the proofs\<close>

text \<open>What \<open>send\<close> does on the transport \<open>wsRef\<close> points to when that transport is OPEN.\<close>

definition transmit :: "json \<Rightarrow> state \<Rightarrow> state" where
  "transmit f s =
     (case wsRef s of
        None \<Rightarrow> s
      | Some i \<Rightarrow> s\<lparr>sockets := (sockets s)
           [i := (sockets s ! i)\<lparr>transmitted := transmitted (sockets s ! i) @ [f]\<rparr>]\<rparr>)"

definition send_all :: "('a \<Rightarrow> json) \<Rightarrow> ('a \<Rightarrow> content) \<Rightarrow> 'a list \<Rightarrow> state \<Rightarrow> state" where
  "send_all mk lg xs s = fold (\<lambda>x t. addMessage Sent (lg x) (transmit (mk x) t)) xs s"

text \<open>The state a loop or a handler body ends in, whether or not it threw.\<close>

definition outcome :: "state + state \<Rightarrow> state" where
  "outcome r = (case r of Inl t \<Rightarrow> t | Inr t \<Rightarrow> t)"


text \<open>
  The \<open>readyState\<close> of the transport \<open>wsRef\<close> points to, if it points to one; the frames
  transmitted so far, transport by transport; and the one way the handler of an inbound
  frame is cut short after the login detection: the frame is a login confirmation, there
  is something to replay, and \<open>wsRef\<close> points to a transport that is still CONNECTING, so
  the first \<open>send\<close> of the replay loop throws.
\<close>

definition handle_state :: "state \<Rightarrow> ReadyState option" where
  "handle_state s = (case current_socket s of None \<Rightarrow> None | Some k \<Rightarrow> Some (readyState k))"

definition traffic :: "state \<Rightarrow> json list list" where
  "traffic s = map transmitted (sockets s)"

definition replay_throws :: "state \<Rightarrow> json option \<Rightarrow> bool" where
  "replay_throws s r =
     (is_login_confirmation r \<and> pendingSubscriptionsRef s \<noteq> [] \<and>
      handle_state s = Some CONNECTING)"

subsection \<open>Sample frames and sessions\<close>

text \<open>The inbound frames of the specification's scenarios.\<close>

definition login_frame :: json where
  "login_frame =
     JObj [''response'' \<mapsto> JObj
       [''svcName'' \<mapsto> JStr ''Broadcast'', ''streamingType'' \<mapsto> JStr ''login'']]"

definition tick1_fields :: "string \<Rightarrow> json option" where
  "tick1_fields =
     [''symbol'' \<mapsto> JStr ''NSECM:2885'', ''ltp'' \<mapsto> JNum 101.5, ''p_change'' \<mapsto> JNum 1.2]"

definition tick1 :: json where
  "tick1 = JObj [''response'' \<mapsto> JObj [''data'' \<mapsto> JObj tick1_fields]]"

definition tick2_fields :: "string \<Rightarrow> json option" where
  "tick2_fields = [''symbol'' \<mapsto> JStr ''NSECM:2885'', ''ltp'' \<mapsto> JNum 102]"

definition tick2 :: json where
  "tick2 = JObj [''response'' \<mapsto> JObj [''data'' \<mapsto> JObj tick2_fields]]"

text \<open>A frame that carries both aliases of the percent change.\<close>

definition tick_both_fields :: "string \<Rightarrow> json option" where
  "tick_both_fields =
     [''symbol'' \<mapsto> JStr ''NSECM:2885'', ''p_change'' \<mapsto> JNum 1.2,
      ''changePercent'' \<mapsto> JNum 5]"

definition tick_both :: json where
  "tick_both = JObj [''response'' \<mapsto> JObj [''data'' \<mapsto> JObj tick_both_fields]]"

text \<open>A field of the record stored for a symbol; \<open>None\<close> when there is no record or no field.\<close>

definition stored_field :: "state \<Rightarrow> string \<Rightarrow> string \<Rightarrow> json option" where
  "stored_field s sy k = (case marketData s sy of None \<Rightarrow> None | Some r \<Rightarrow> r k)"

text \<open>\<open>ToString\<close> is never reached in the sample sessions: every symbol is a string.\<close>

definition no_toStr :: "json \<Rightarrow> string" where
  "no_toStr v = []"

text \<open>The page loaded for the first time: nothing is saved.\<close>

definition fresh_page :: state where
  "fresh_page = mount None Map.empty"

text \<open>
  A session on the fresh page: connect, the transport opens, login, the server confirms.
\<close>

definition logged_in_session :: state where
  "logged_in_session =
     run no_toStr
       [ClickConnect None, WsOpen 0, ClickLogin, WsMessage 0 [] (Some login_frame)]
       fresh_page"

text \<open>
  The page loaded over what an earlier visit saved: credentials, one subscription and
  the login flag. Mounting connects by itself; opening the transport schedules the
  automatic \<open>sendLogin\<close>; the operator logs in before the timer fires, and the server
  confirms.
\<close>

definition saved_visit :: "string \<Rightarrow> stored option" where
  "saved_visit =
     [STORAGE_KEYS_credentials \<mapsto> StoredCreds default_credentials,
      STORAGE_KEYS_subscriptions \<mapsto> StoredSubs [\<lparr>token = ''NSECM:2885'', stype = ltpinfo\<rparr>],
      STORAGE_KEYS_wasLoggedIn \<mapsto> StoredText ''true'']"

definition relogin_session :: state where
  "relogin_session =
     run no_toStr
       [WsOpen 0, ClickLogin, WsMessage 0 [] (Some login_frame)]
       (mount None saved_visit)"


text \<open>
  The session \<open>logged_in_session\<close>, then \<open>NSECM:2885\<close> is subscribed under both stream
  kinds and one tick arrives for it.
\<close>

definition both_kinds_session :: state where
  "both_kinds_session =
     run no_toStr
       [EditNewToken ''NSECM:2885'', ClickSubscribe,
        SelectStreamingType marketPicture, EditNewToken ''NSECM:2885'', ClickSubscribe,
        WsMessage 0 [] (Some tick1)]
       logged_in_session"

section \<open>Facts about the transport\<close>

lemmas storage_keys =
  STORAGE_KEYS_subscriptions_def STORAGE_KEYS_credentials_def STORAGE_KEYS_wasLoggedIn_def

lemma ws_send_open: "is_open s \<Longrightarrow> ws_send f s = Some (transmit f s)"
  by (auto simp: is_open_def ws_send_def socket_send_def current_socket_def transmit_def
           split: option.splits if_splits ReadyState.splits)

lemma is_open_transmit: "is_open s \<Longrightarrow> is_open (transmit f s)"
  by (auto simp: is_open_def current_socket_def transmit_def split: option.splits if_splits)

lemma wire_transmit: "is_open s \<Longrightarrow> wire (transmit f s) = wire s @ [f]"
  by (auto simp: is_open_def wire_def current_socket_def transmit_def split: option.splits if_splits)

lemma transmit_frame: "transmit f s = s\<lparr>sockets := sockets (transmit f s)\<rparr>"
  by (simp add: transmit_def split: option.splits)

lemma transmit_fields [simp]:
  "wsStatus (transmit f s) = wsStatus s"
  "isLoggedIn (transmit f s) = isLoggedIn s"
  "messages (transmit f s) = messages s"
  "subscribedTokens (transmit f s) = subscribedTokens s"
  "subsIdentity (transmit f s) = subsIdentity s"
  "marketData (transmit f s) = marketData s"
  "credentials (transmit f s) = credentials s"
  "newToken (transmit f s) = newToken s"
  "streamingType (transmit f s) = streamingType s"
  "wsRef (transmit f s) = wsRef s"
  "pendingSubscriptionsRef (transmit f s) = pendingSubscriptionsRef s"
  "localStorage (transmit f s) = localStorage s"
  "timers (transmit f s) = timers s"
  by (simp_all add: transmit_def split: option.splits)

lemma length_sockets_transmit [simp]: "length (sockets (transmit f s)) = length (sockets s)"
  by (simp add: transmit_def split: option.splits)

lemma addMessage_is_open [simp]: "is_open (addMessage ty c s) = is_open s"
  by (simp add: is_open_def current_socket_def addMessage_def split: option.splits)

lemma addMessage_wire [simp]: "wire (addMessage ty c s) = wire s"
  by (simp add: wire_def current_socket_def addMessage_def split: option.splits)

lemma send_all_Nil [simp]: "send_all mk lg [] s = s"
  by (simp add: send_all_def)

lemma send_all_Cons [simp]:
  "send_all mk lg (x # xs) s = send_all mk lg xs (addMessage Sent (lg x) (transmit (mk x) s))"
  by (simp add: send_all_def)

lemma forEach_send_open: "is_open s \<Longrightarrow> forEach_send mk lg xs s = Inr (send_all mk lg xs s)"
proof (induction xs arbitrary: s)
  case Nil
  show ?case by simp
next
  case (Cons x xs)
  have "is_open (addMessage Sent (lg x) (transmit (mk x) s))"
    using Cons.prems by (simp add: is_open_transmit)
  then show ?case using Cons.IH Cons.prems by (simp add: ws_send_open)
qed

lemma send_all_is_open: "is_open s \<Longrightarrow> is_open (send_all mk lg xs s)"
  by (induction xs arbitrary: s) (simp_all add: is_open_transmit)

lemma send_all_wire: "is_open s \<Longrightarrow> wire (send_all mk lg xs s) = wire s @ map mk xs"
  by (induction xs arbitrary: s) (simp_all add: is_open_transmit wire_transmit)

lemma send_all_messages:
  "messages (send_all mk lg xs s) = messages s @ map (\<lambda>x. \<lparr>mtype = Sent, content = lg x\<rparr>) xs"
  by (induction xs arbitrary: s) (simp_all add: addMessage_def transmit_def split: option.splits)

lemma send_all_frame:
  "send_all mk lg xs s =
     s\<lparr>sockets := sockets (send_all mk lg xs s), messages := messages (send_all mk lg xs s)\<rparr>"
proof (induction xs arbitrary: s)
  case Nil
  show ?case by simp
next
  case (Cons x xs)
  let ?t = "addMessage Sent (lg x) (transmit (mk x) s)"
  have t: "?t = s\<lparr>sockets := sockets ?t, messages := messages ?t\<rparr>"
    by (simp add: addMessage_def transmit_def split: option.splits)
  have "send_all mk lg xs ?t = ?t\<lparr>sockets := sockets (send_all mk lg xs ?t),
           messages := messages (send_all mk lg xs ?t)\<rparr>"
    by (rule Cons.IH)
  also have "\<dots> = s\<lparr>sockets := sockets (send_all mk lg xs ?t),
           messages := messages (send_all mk lg xs ?t)\<rparr>"
    by (subst t) simp
  finally show ?case by simp
qed

lemma send_all_fields [simp]:
  "wsStatus (send_all mk lg xs s) = wsStatus s"
  "isLoggedIn (send_all mk lg xs s) = isLoggedIn s"
  "subscribedTokens (send_all mk lg xs s) = subscribedTokens s"
  "subsIdentity (send_all mk lg xs s) = subsIdentity s"
  "marketData (send_all mk lg xs s) = marketData s"
  "credentials (send_all mk lg xs s) = credentials s"
  "newToken (send_all mk lg xs s) = newToken s"
  "streamingType (send_all mk lg xs s) = streamingType s"
  "wsRef (send_all mk lg xs s) = wsRef s"
  "pendingSubscriptionsRef (send_all mk lg xs s) = pendingSubscriptionsRef s"
  "localStorage (send_all mk lg xs s) = localStorage s"
  "timers (send_all mk lg xs s) = timers s"
  by (induction xs arbitrary: s; simp add: addMessage_def)+

lemma length_sockets_send_all [simp]:
  "length (sockets (send_all mk lg xs s)) = length (sockets s)"
  by (induction xs arbitrary: s) (simp_all add: addMessage_def)

section \<open>What each handler does to the session cells\<close>

lemma is_open_eqI:
  assumes "wsRef t = wsRef s" and "sockets t = sockets s"
  shows "is_open t = is_open s"
  unfolding is_open_def current_socket_def assms ..

lemma wire_eqI:
  assumes "wsRef t = wsRef s" and "sockets t = sockets s"
  shows "wire t = wire s"
  unfolding wire_def current_socket_def assms ..

lemma handle_market_fields [simp]:
  "wsStatus (handle_market toStr p r s) = wsStatus s"
  "isLoggedIn (handle_market toStr p r s) = isLoggedIn s"
  "messages (handle_market toStr p r s) = messages s"
  "subscribedTokens (handle_market toStr p r s) = subscribedTokens s"
  "subsIdentity (handle_market toStr p r s) = subsIdentity s"
  "credentials (handle_market toStr p r s) = credentials s"
  "newToken (handle_market toStr p r s) = newToken s"
  "streamingType (handle_market toStr p r s) = streamingType s"
  "wsRef (handle_market toStr p r s) = wsRef s"
  "pendingSubscriptionsRef (handle_market toStr p r s) = pendingSubscriptionsRef s"
  "localStorage (handle_market toStr p r s) = localStorage s"
  "sockets (handle_market toStr p r s) = sockets s"
  "timers (handle_market toStr p r s) = timers s"
  by (simp_all add: handle_market_def split: prod.splits option.splits)

lemma ws_send_fields:
  assumes "ws_send f s = Some t"
  shows "wsStatus t = wsStatus s" "isLoggedIn t = isLoggedIn s" "messages t = messages s"
    "subscribedTokens t = subscribedTokens s" "subsIdentity t = subsIdentity s"
    "marketData t = marketData s" "credentials t = credentials s" "newToken t = newToken s"
    "streamingType t = streamingType s" "wsRef t = wsRef s"
    "pendingSubscriptionsRef t = pendingSubscriptionsRef s" "localStorage t = localStorage s"
    "timers t = timers s" "length (sockets t) = length (sockets s)"
  using assms by (auto simp: ws_send_def split: option.splits if_splits)

lemma forEach_send_fields:
  "wsStatus (outcome (forEach_send mk lg xs s)) = wsStatus s"
  "isLoggedIn (outcome (forEach_send mk lg xs s)) = isLoggedIn s"
  "subscribedTokens (outcome (forEach_send mk lg xs s)) = subscribedTokens s"
  "subsIdentity (outcome (forEach_send mk lg xs s)) = subsIdentity s"
  "marketData (outcome (forEach_send mk lg xs s)) = marketData s"
  "credentials (outcome (forEach_send mk lg xs s)) = credentials s"
  "newToken (outcome (forEach_send mk lg xs s)) = newToken s"
  "streamingType (outcome (forEach_send mk lg xs s)) = streamingType s"
  "wsRef (outcome (forEach_send mk lg xs s)) = wsRef s"
  "pendingSubscriptionsRef (outcome (forEach_send mk lg xs s)) = pendingSubscriptionsRef s"
  "localStorage (outcome (forEach_send mk lg xs s)) = localStorage s"
  "timers (outcome (forEach_send mk lg xs s)) = timers s"
  "length (sockets (outcome (forEach_send mk lg xs s))) = length (sockets s)"
  by (induction xs arbitrary: s;
      simp add: outcome_def addMessage_def ws_send_fields split: option.splits)+


lemma data_request_readers [simp]:
  "frame_symbol (data_request rt c tok ty) = Some (JStr tok)"
  "frame_field (data_request rt c tok ty) ''streamingType'' = Some (JStr (streamingType_str ty))"
  "frame_field (data_request rt c tok ty) ''request_type'' = Some (JStr (requestType_str rt))"
  by (simp_all add: data_request_def frame_field_def frame_symbol_def)



lemma forEach_send_cases:
  "forEach_send mk lg xs s = Inl t \<or> forEach_send mk lg xs s = Inr t \<Longrightarrow>
     isLoggedIn t = isLoggedIn s \<and> subscribedTokens t = subscribedTokens s
     \<and> pendingSubscriptionsRef t = pendingSubscriptionsRef s"
  using forEach_send_fields(2,3,10) [of mk lg xs s] by (auto simp: outcome_def)

lemma replay_cases:
  "replay cl s = Inl t \<or> replay cl s = Inr t \<Longrightarrow>
     isLoggedIn t = isLoggedIn s \<and> subscribedTokens t = subscribedTokens s
     \<and> pendingSubscriptionsRef t = pendingSubscriptionsRef s"
  using forEach_send_cases [of _ _ "pendingSubscriptionsRef s" s t]
  by (auto simp: replay_def split: if_splits)

lemma get_prop_opt_chain: "get_prop p k = Inr r \<Longrightarrow> r = opt_chain (Some p) k"
  by (cases p) auto

lemma get_prop_throws: "get_prop p k = Inl u \<Longrightarrow> opt_chain (Some p) k = None"
  by (cases p) auto

lemma not_login_None [simp]: "\<not> is_login_confirmation None"
  by (simp add: is_login_confirmation_def)

lemma onmessage_body_fields:
  assumes "onmessage_body toStr cl p s = Inl t \<or> onmessage_body toStr cl p s = Inr t"
  shows "isLoggedIn t = (isLoggedIn s \<or> is_login_confirmation (opt_chain (Some p) ''response''))"
    and "subscribedTokens t = subscribedTokens s"
    and "pendingSubscriptionsRef t = pendingSubscriptionsRef s"
proof -
  let ?s1 = "addMessage Success (Text ''Login successful - auto-resubscribing tokens...'')
               (s\<lparr>isLoggedIn := True\<rparr>)"
  have r: "\<And>u. replay cl ?s1 = Inl u \<or> replay cl ?s1 = Inr u \<Longrightarrow>
     isLoggedIn u \<and> subscribedTokens u = subscribedTokens s
     \<and> pendingSubscriptionsRef u = pendingSubscriptionsRef s"
    using replay_cases [of cl ?s1] by (simp add: addMessage_def)
  show "isLoggedIn t = (isLoggedIn s \<or> is_login_confirmation (opt_chain (Some p) ''response''))"
    using assms r
    by (auto simp: onmessage_body_def split: sum.splits if_splits
             dest: get_prop_opt_chain get_prop_throws)
  show "subscribedTokens t = subscribedTokens s"
    using assms r
    by (auto simp: onmessage_body_def split: sum.splits if_splits)
  show "pendingSubscriptionsRef t = pendingSubscriptionsRef s"
    using assms r
    by (auto simp: onmessage_body_def split: sum.splits if_splits)
qed

lemma onmessage_fields:
  "isLoggedIn (onmessage toStr cl d parsed s) =
     (isLoggedIn s \<or> (\<exists>p. parsed = Some p \<and> is_login_confirmation (opt_chain (Some p) ''response'')))"
  "subscribedTokens (onmessage toStr cl d parsed s) = subscribedTokens s"
  "pendingSubscriptionsRef (onmessage toStr cl d parsed s) = pendingSubscriptionsRef s"
proof -
  have a: "\<And>p t. onmessage_body toStr cl p (addMessage Received (Pretty p) s) = Inl t
              \<or> onmessage_body toStr cl p (addMessage Received (Pretty p) s) = Inr t \<Longrightarrow>
       isLoggedIn t = (isLoggedIn s \<or> is_login_confirmation (opt_chain (Some p) ''response''))
       \<and> subscribedTokens t = subscribedTokens s
       \<and> pendingSubscriptionsRef t = pendingSubscriptionsRef s"
    using onmessage_body_fields [of toStr cl _ "addMessage Received (Pretty _) s"]
    by (simp add: addMessage_def)
  show "isLoggedIn (onmessage toStr cl d parsed s) =
     (isLoggedIn s \<or> (\<exists>p. parsed = Some p \<and> is_login_confirmation (opt_chain (Some p) ''response'')))"
    using a by (auto simp: onmessage_def addMessage_def split: option.splits sum.splits)
  show "subscribedTokens (onmessage toStr cl d parsed s) = subscribedTokens s"
    using a by (auto simp: onmessage_def addMessage_def split: option.splits sum.splits)
  show "pendingSubscriptionsRef (onmessage toStr cl d parsed s) = pendingSubscriptionsRef s"
    using a by (auto simp: onmessage_def addMessage_def split: option.splits sum.splits)
qed

lemma effects_fields [simp]:
  "wsStatus (effects old new) = wsStatus new"
  "isLoggedIn (effects old new) = isLoggedIn new"
  "messages (effects old new) = messages new"
  "subscribedTokens (effects old new) = subscribedTokens new"
  "subsIdentity (effects old new) = subsIdentity new"
  "marketData (effects old new) = marketData new"
  "credentials (effects old new) = credentials new"
  "newToken (effects old new) = newToken new"
  "streamingType (effects old new) = streamingType new"
  "wsRef (effects old new) = wsRef new"
  "pendingSubscriptionsRef (effects old new) = pendingSubscriptionsRef new"
  "sockets (effects old new) = sockets new"
  "timers (effects old new) = timers new"
  by (simp_all add: effects_def setItem_def Let_def)

lemma effects_idle [simp]: "effects s s = s"
  by (simp add: effects_def)

lemma sendLogin_fields [simp]:
  "isLoggedIn (sendLogin c s) = isLoggedIn s"
  "subscribedTokens (sendLogin c s) = subscribedTokens s"
  "pendingSubscriptionsRef (sendLogin c s) = pendingSubscriptionsRef s"
  by (simp_all add: sendLogin_def ws_send_open addMessage_def)

lemma sendLogout_fields [simp]:
  "isLoggedIn (sendLogout s) = (isLoggedIn s \<and> \<not> is_open s)"
  "subscribedTokens (sendLogout s) = (if is_open s then [] else subscribedTokens s)"
  "pendingSubscriptionsRef (sendLogout s) = (if is_open s then [] else pendingSubscriptionsRef s)"
  by (simp_all add: sendLogout_def ws_send_open addMessage_def Let_def removeItem_def
        setSubscribedTokens_def)

lemma disconnectWebSocket_fields [simp]:
  "isLoggedIn (disconnectWebSocket s) = False"
  "subscribedTokens (disconnectWebSocket s) = []"
  "pendingSubscriptionsRef (disconnectWebSocket s) = []"
  "marketData (disconnectWebSocket s) = Map.empty"
  "wsRef (disconnectWebSocket s) = None"
  by (simp_all add: disconnectWebSocket_def Let_def removeItem_def setSubscribedTokens_def)

lemma subscribeToken_fields [simp]:
  "isLoggedIn (subscribeToken s) = isLoggedIn s"
  by (simp add: subscribeToken_def forEach_send_open addMessage_def Let_def
        setSubscribedTokens_def)


lemma unsubscribeToken_fields [simp]:
  "isLoggedIn (unsubscribeToken tok ty s) = isLoggedIn s"
  by (simp add: unsubscribeToken_def ws_send_open addMessage_def Let_def
        setSubscribedTokens_def)


lemma callbacks_fields [simp]:
  "isLoggedIn (connectWebSocket cl f s) = isLoggedIn s"
  "subscribedTokens (connectWebSocket cl f s) = subscribedTokens s"
  "pendingSubscriptionsRef (connectWebSocket cl f s) = pendingSubscriptionsRef s"
  "isLoggedIn (onopen cl s) = isLoggedIn s"
  "subscribedTokens (onopen cl s) = subscribedTokens s"
  "pendingSubscriptionsRef (onopen cl s) = pendingSubscriptionsRef s"
  "isLoggedIn (onerror s) = isLoggedIn s"
  "subscribedTokens (onerror s) = subscribedTokens s"
  "pendingSubscriptionsRef (onerror s) = pendingSubscriptionsRef s"
  "isLoggedIn (onclose s) = False"
  "subscribedTokens (onclose s) = subscribedTokens s"
  "pendingSubscriptionsRef (onclose s) = pendingSubscriptionsRef s"
  "isLoggedIn (set_readyState i r s) = isLoggedIn s"
  "subscribedTokens (set_readyState i r s) = subscribedTokens s"
  "pendingSubscriptionsRef (set_readyState i r s) = pendingSubscriptionsRef s"
  by (simp_all add: connectWebSocket_def onopen_def onerror_def onclose_def set_readyState_def
        addMessage_def Let_def split: option.splits)

lemma handle_isLoggedIn:
  "isLoggedIn (handle toStr e s) =
     (case e of
        ClickDisconnect \<Rightarrow> isLoggedIn s \<and> wsStatus s = St_disconnected
      | ClickLogout \<Rightarrow> isLoggedIn s \<and> \<not> is_open s
      | WsClose i \<Rightarrow> isLoggedIn s \<and> \<not> i < length (sockets s)
      | WsMessage i d parsed \<Rightarrow>
          isLoggedIn s \<or>
          (i < length (sockets s) \<and> readyState (sockets s ! i) = OPEN \<and>
           (\<exists>p. parsed = Some p \<and> is_login_confirmation (opt_chain (Some p) ''response'')))
      | _ \<Rightarrow> isLoggedIn s)"
  by (cases e) (auto simp: handle_def onmessage_fields)







lemma wire_effects [simp]: "wire (effects old new) = wire new"
  by (rule wire_eqI) simp_all

lemma is_open_effects [simp]: "is_open (effects old new) = is_open new"
  by (rule is_open_eqI) simp_all

lemma sendLogin_idle_cells [simp]:
  "credentials (sendLogin c s) = credentials s"
  "subsIdentity (sendLogin c s) = subsIdentity s"
  by (simp_all add: sendLogin_def ws_send_open addMessage_def)

lemma sendLogin_open:
  "is_open s \<Longrightarrow>
     sendLogin c s =
       addMessage Sent (Pretty (session_request subscribe login c))
         (transmit (session_request subscribe login c) s)"
  by (simp add: sendLogin_def ws_send_open)

lemma sendLogin_closed:
  "\<not> is_open s \<Longrightarrow> sendLogin c s = addMessage Error (Text ''Not connected'') s"
  by (simp add: sendLogin_def)

lemma sendLogin_wire:
  "wire (sendLogin c s) =
     (if is_open s then wire s @ [session_request subscribe login c] else wire s)"
  by (simp add: sendLogin_open sendLogin_closed wire_transmit)

lemma dispatch_ClickLogin:
  "dispatch toStr ClickLogin s =
     (if wsStatus s \<noteq> St_connected \<or> isLoggedIn s then s else sendLogin (credentials s) s)"
  by (simp add: dispatch_def handle_def effects_def)

section \<open>The sample sessions, evaluated\<close>

lemmas run_defs =
  dispatch_def handle_def effects_def first_render_def connectWebSocket_def onopen_def
  set_readyState_def sendLogin_def is_open_def current_socket_def ws_send_def
  socket_send_def handle_market_def extract_market_def onmessage_def onmessage_body_def
  is_login_confirmation_def addMessage_def replay_def setItem_def storage_keys
  subscribeToken_def parse_tokens_def trim_def is_ws_def setSubscribedTokens_def
  merge_subscriptions_def sub_key_def Let_def no_toStr_def mount_def load_saved_def

lemmas market_defs =
  handle_market_def extract_market_def normalized_def or_null_def Let_def map_add_def
  stored_field_def

lemma fresh_page_eq:
  "fresh_page =
     \<lparr>wsStatus = St_disconnected, isLoggedIn = False, messages = [],
      subscribedTokens = [], subsIdentity = 0, marketData = Map.empty,
      credentials = default_credentials,
      newToken = ''NSECM:2885'', streamingType = ltpinfo, wsRef = None,
      pendingSubscriptionsRef = [],
      localStorage =
        [''stockBroker_credentials'' \<mapsto> StoredCreds default_credentials,
         ''stockBroker_subscriptions'' \<mapsto> StoredSubs [],
         ''stockBroker_wasLoggedIn'' \<mapsto> StoredText ''false''],
      sockets = [], timers = []\<rparr>"
  by (simp add: fresh_page_def run_defs)

lemma fresh_page_facts:
  "\<not> is_open fresh_page" "\<not> isLoggedIn fresh_page" "wsStatus fresh_page = St_disconnected"
  "sockets fresh_page = []" "messages fresh_page = []" "subscribedTokens fresh_page = []"
  "credentials fresh_page = default_credentials"
  by (simp_all add: fresh_page_eq is_open_def current_socket_def)

lemma logged_in_session_eq:
  "logged_in_session =
     \<lparr>wsStatus = St_connected, isLoggedIn = True,
      messages =
        [\<lparr>mtype = Success, content = Text ''WebSocket connected''\<rparr>,
         \<lparr>mtype = Sent,
          content = Pretty (session_request subscribe login default_credentials)\<rparr>,
         \<lparr>mtype = Received, content = Pretty login_frame\<rparr>,
         \<lparr>mtype = Success,
          content = Text ''Login successful - auto-resubscribing tokens...''\<rparr>],
      subscribedTokens = [], subsIdentity = 0, marketData = Map.empty,
      credentials = default_credentials,
      newToken = ''NSECM:2885'', streamingType = ltpinfo, wsRef = Some 0,
      pendingSubscriptionsRef = [],
      localStorage =
        [''stockBroker_credentials'' \<mapsto> StoredCreds default_credentials,
         ''stockBroker_subscriptions'' \<mapsto> StoredSubs [],
         ''stockBroker_wasLoggedIn'' \<mapsto> StoredText ''true''],
      sockets =
        [\<lparr>readyState = OPEN,
          transmitted = [session_request subscribe login default_credentials],
          closure = default_credentials\<rparr>],
      timers = []\<rparr>"
  by (simp add: logged_in_session_def fresh_page_eq run_defs login_frame_def)

lemma logged_in_facts:
  "is_open logged_in_session" "isLoggedIn logged_in_session"
  "wsStatus logged_in_session = St_connected"
  "wire logged_in_session = [session_request subscribe login default_credentials]"
  "map readyState (sockets logged_in_session) = [OPEN]"
  by (simp_all add: logged_in_session_eq is_open_def current_socket_def wire_def)

lemma both_kinds_session_eq:
  "both_kinds_session =
     \<lparr>wsStatus = St_connected, isLoggedIn = True,
      messages =
        [\<lparr>mtype = Success, content = Text ''WebSocket connected''\<rparr>,
         \<lparr>mtype = Sent,
          content = Pretty (session_request subscribe login default_credentials)\<rparr>,
         \<lparr>mtype = Received, content = Pretty login_frame\<rparr>,
         \<lparr>mtype = Success,
          content = Text ''Login successful - auto-resubscribing tokens...''\<rparr>,
         \<lparr>mtype = Sent,
          content = Pretty (data_request subscribe default_credentials ''NSECM:2885'' ltpinfo)\<rparr>,
         \<lparr>mtype = Sent,
          content = Pretty (data_request subscribe default_credentials ''NSECM:2885''
                              marketPicture)\<rparr>,
         \<lparr>mtype = Received, content = Pretty tick1\<rparr>],
      subscribedTokens =
        [\<lparr>token = ''NSECM:2885'', stype = ltpinfo\<rparr>,
         \<lparr>token = ''NSECM:2885'', stype = marketPicture\<rparr>],
      subsIdentity = 2,
      marketData =
        [''NSECM:2885'' \<mapsto> normalized (JStr ''NSECM:2885'') (JObj tick1_fields)],
      credentials = default_credentials,
      newToken = [], streamingType = marketPicture, wsRef = Some 0,
      pendingSubscriptionsRef =
        [\<lparr>token = ''NSECM:2885'', stype = ltpinfo\<rparr>,
         \<lparr>token = ''NSECM:2885'', stype = marketPicture\<rparr>],
      localStorage =
        [''stockBroker_credentials'' \<mapsto> StoredCreds default_credentials,
         ''stockBroker_wasLoggedIn'' \<mapsto> StoredText ''true'',
         ''stockBroker_subscriptions'' \<mapsto> StoredSubs
            [\<lparr>token = ''NSECM:2885'', stype = ltpinfo\<rparr>,
             \<lparr>token = ''NSECM:2885'', stype = marketPicture\<rparr>]],
      sockets =
        [\<lparr>readyState = OPEN,
          transmitted =
            [session_request subscribe login default_credentials,
             data_request subscribe default_credentials ''NSECM:2885'' ltpinfo,
             data_request subscribe default_credentials ''NSECM:2885'' marketPicture],
          closure = default_credentials\<rparr>],
      timers = []\<rparr>"
  by (simp add: both_kinds_session_def logged_in_session_eq run_defs tick1_def
        tick1_fields_def)

section \<open>Sending through a handle that is not open\<close>

lemma is_open_handle_state: "is_open s = (handle_state s = Some OPEN)"
  by (simp add: is_open_def handle_state_def split: option.splits)

lemma handle_state_addMessage [simp]: "handle_state (addMessage ty c s) = handle_state s"
  by (simp add: handle_state_def current_socket_def addMessage_def split: option.splits)

lemma ws_send_connecting: "handle_state s = Some CONNECTING \<Longrightarrow> ws_send f s = None"
  by (auto simp: handle_state_def current_socket_def ws_send_def socket_send_def
           split: option.splits if_splits)

lemma ws_send_idle:
  assumes "handle_state s \<noteq> Some CONNECTING" and "handle_state s \<noteq> Some OPEN"
  shows "ws_send f s = Some s"
proof (cases "wsRef s")
  case None
  then show ?thesis by (simp add: ws_send_def)
next
  case (Some i)
  show ?thesis
  proof (cases "i < length (sockets s)")
    case False
    then show ?thesis using Some by (simp add: ws_send_def)
  next
    case True
    then have "handle_state s = Some (readyState (sockets s ! i))"
      using Some by (simp add: handle_state_def current_socket_def)
    then have "socket_send f (sockets s ! i) = Some (sockets s ! i)"
      using assms by (cases "readyState (sockets s ! i)") (simp_all add: socket_send_def)
    then show ?thesis
      using Some True by (simp add: ws_send_def)
  qed
qed

lemma forEach_send_connecting:
  "handle_state s = Some CONNECTING \<Longrightarrow> xs \<noteq> [] \<Longrightarrow> forEach_send mk lg xs s = Inl s"
  by (cases xs) (simp_all add: ws_send_connecting)

lemma forEach_send_idle:
  "handle_state s \<noteq> Some CONNECTING \<Longrightarrow> handle_state s \<noteq> Some OPEN \<Longrightarrow>
   \<exists>t. forEach_send mk lg xs s = Inr t \<and> sockets t = sockets s"
proof (induction xs arbitrary: s)
  case Nil
  show ?case by simp
next
  case (Cons x xs)
  let ?t = "addMessage Sent (lg x) s"
  have "handle_state ?t \<noteq> Some CONNECTING" "handle_state ?t \<noteq> Some OPEN"
    using Cons.prems by simp_all
  then obtain u where "forEach_send mk lg xs ?t = Inr u" "sockets u = sockets ?t"
    using Cons.IH by blast
  then show ?case
    using Cons.prems by (simp add: ws_send_idle addMessage_def)
qed

lemma forEach_send_returns:
  assumes "handle_state s \<noteq> Some CONNECTING"
  shows "\<exists>t. forEach_send mk lg xs s = Inr t"
proof (cases "is_open s")
  case True
  then show ?thesis by (simp add: forEach_send_open)
next
  case False
  then show ?thesis
    using forEach_send_idle [OF assms, of mk lg xs] by (auto simp: is_open_handle_state)
qed


lemma outcome_simps [simp]: "outcome (Inl t) = t" "outcome (Inr t) = t"
  by (simp_all add: outcome_def)


lemma replay_throw:
  "pendingSubscriptionsRef s \<noteq> [] \<Longrightarrow> handle_state s = Some CONNECTING \<Longrightarrow> replay cl s = Inl s"
  by (simp add: replay_def forEach_send_connecting)

lemma replay_returns:
  assumes "\<not> (pendingSubscriptionsRef s \<noteq> [] \<and> handle_state s = Some CONNECTING)"
  shows "\<exists>t. replay cl s = Inr t \<and> marketData t = marketData s"
proof (cases "pendingSubscriptionsRef s = []")
  case True
  then show ?thesis by (simp add: replay_def)
next
  case False
  then have "handle_state s \<noteq> Some CONNECTING"
    using assms by simp
  then obtain t where t: "forEach_send (\<lambda>sub. data_request subscribe cl (token sub) (stype sub))
      auto_subscribe_text (pendingSubscriptionsRef s) s = Inr t"
    using forEach_send_returns by blast
  then have "marketData t = marketData s"
    using forEach_send_fields(5) [of "\<lambda>sub. data_request subscribe cl (token sub) (stype sub)"
        auto_subscribe_text "pendingSubscriptionsRef s" s]
    by (simp add: outcome_def)
  then show ?thesis
    using t False by (simp add: replay_def)
qed

lemma traffic_addMessage [simp]: "traffic (addMessage ty c s) = traffic s"
  by (simp add: traffic_def addMessage_def)

lemma wsRef_addMessage [simp]: "wsRef (addMessage ty c s) = wsRef s"
  by (simp add: addMessage_def)









section \<open>Session state machine\<close>

text \<open>
  C2, as the claim states it, fails on a transport error: in a logged-in session the
  \<open>error\<close> callback sets \<open>wsStatus\<close> to \<open>error\<close> and leaves \<open>isLoggedIn\<close> true.
\<close>

theorem error_keeps_login_counterexample:
  "isLoggedIn logged_in_session
   \<and> isLoggedIn (dispatch no_toStr (WsError 0) logged_in_session)
   \<and> wsStatus (dispatch no_toStr (WsError 0) logged_in_session) = St_error"
  by (simp add: logged_in_session_eq run_defs onerror_def)

text \<open>
  C2, amended. \<open>isLoggedIn\<close> turns true only when an inbound frame that is a login
  confirmation is processed; \<open>sendLogin\<close> never changes it. It turns false only on a
  Logout click with the transport open, on a Disconnect click, or on a transport
  \<open>close\<close>; each of \<open>sendLogout\<close> (transport open), \<open>disconnectWebSocket\<close> and the
  \<open>close\<close> callback does set it false. A transport \<open>error\<close> leaves it as it was.
\<close>

theorem auth_transitions:
  "(\<not> isLoggedIn s \<and> isLoggedIn (dispatch toStr e s) \<longrightarrow>
      (\<exists>i d p. e = WsMessage i d (Some p)
         \<and> is_login_confirmation (opt_chain (Some p) ''response'')))
   \<and> (isLoggedIn s \<and> \<not> isLoggedIn (dispatch toStr e s) \<longrightarrow>
        (e = ClickLogout \<and> is_open s) \<or> (e = ClickDisconnect \<and> wsStatus s \<noteq> St_disconnected)
        \<or> (\<exists>i. e = WsClose i))
   \<and> isLoggedIn (sendLogin c s) = isLoggedIn s
   \<and> (is_open s \<longrightarrow> \<not> isLoggedIn (sendLogout s))
   \<and> \<not> isLoggedIn (disconnectWebSocket s)
   \<and> \<not> isLoggedIn (onclose s)
   \<and> isLoggedIn (onerror s) = isLoggedIn s
   \<and> (\<forall>i. isLoggedIn (dispatch toStr (WsError i) s) = isLoggedIn s)"
  unfolding dispatch_def
  by (cases e) (auto simp: handle_isLoggedIn)

theorem auth_transitions_witness:
  "\<not> isLoggedIn (run no_toStr [ClickConnect None, WsOpen 0, ClickLogin] fresh_page)
   \<and> isLoggedIn (dispatch no_toStr (WsMessage 0 [] (Some login_frame))
        (run no_toStr [ClickConnect None, WsOpen 0, ClickLogin] fresh_page))
   \<and> is_login_confirmation (opt_chain (Some login_frame) ''response'')
   \<and> isLoggedIn logged_in_session \<and> is_open logged_in_session
   \<and> \<not> isLoggedIn (dispatch no_toStr ClickLogout logged_in_session)
   \<and> \<not> isLoggedIn (dispatch no_toStr (WsClose 0) logged_in_session)"
  using auth_transitions [of "run no_toStr [ClickConnect None, WsOpen 0, ClickLogin] fresh_page"
           no_toStr "WsMessage 0 [] (Some login_frame)" default_credentials]
        auth_transitions [of logged_in_session no_toStr ClickLogout default_credentials]
  by (simp add: logged_in_session_eq fresh_page_eq run_defs login_frame_def sendLogout_def
        onclose_def)

text \<open>
  C8, as the claim states it, fails: \<open>sendLogin\<close> checks the transport only. In
  \<open>relogin_session\<close> the page was mounted over a saved visit, the operator is logged in
  and the saved subscription has been replayed; the automatic login scheduled when the
  transport opened then fires and sends a second login request.
\<close>

theorem login_sent_while_logged_in:
  "isLoggedIn relogin_session \<and> wsStatus relogin_session = St_connected
   \<and> wire relogin_session =
       [session_request subscribe login default_credentials,
        data_request subscribe default_credentials ''NSECM:2885'' ltpinfo]
   \<and> wire (dispatch no_toStr (TimerFire 0) relogin_session) =
       [session_request subscribe login default_credentials,
        data_request subscribe default_credentials ''NSECM:2885'' ltpinfo,
        session_request subscribe login default_credentials]"
  by (simp add: relogin_session_def saved_visit_def run_defs login_frame_def wire_def)

text \<open>
  C8, amended. \<open>sendLogin\<close> sends the login request exactly when the transport \<open>wsRef\<close>
  points to is OPEN, whatever \<open>isLoggedIn\<close> is; otherwise it sends nothing and only
  appends the error entry \<open>Not connected\<close>. It never changes \<open>isLoggedIn\<close>. The Login
  button is what is gated on the session: a click does nothing unless \<open>wsStatus\<close> is
  \<open>connected\<close> and \<open>isLoggedIn\<close> is false, and then it runs \<open>sendLogin\<close>.
\<close>

theorem sendLogin_behaviour:
  "wire (sendLogin c s) =
     (if is_open s then wire s @ [session_request subscribe login c] else wire s)
   \<and> (is_open s \<longrightarrow>
        sendLogin c s =
          addMessage Sent (Pretty (session_request subscribe login c))
            (transmit (session_request subscribe login c) s))
   \<and> (\<not> is_open s \<longrightarrow> sendLogin c s = addMessage Error (Text ''Not connected'') s)
   \<and> isLoggedIn (sendLogin c s) = isLoggedIn s
   \<and> (wsStatus s \<noteq> St_connected \<or> isLoggedIn s \<longrightarrow> dispatch toStr ClickLogin s = s)
   \<and> (wsStatus s = St_connected \<and> \<not> isLoggedIn s \<longrightarrow>
        dispatch toStr ClickLogin s = sendLogin (credentials s) s)"
  using sendLogin_open [of s c] sendLogin_closed [of s c]
  by (simp add: sendLogin_wire dispatch_ClickLogin)

theorem sendLogin_behaviour_witness:
  "is_open logged_in_session \<and> isLoggedIn logged_in_session
   \<and> wire (sendLogin default_credentials logged_in_session) =
       [session_request subscribe login default_credentials,
        session_request subscribe login default_credentials]
   \<and> dispatch no_toStr ClickLogin logged_in_session = logged_in_session
   \<and> \<not> is_open fresh_page
   \<and> sendLogin default_credentials fresh_page =
       addMessage Error (Text ''Not connected'') fresh_page"
  using sendLogin_behaviour [of default_credentials logged_in_session no_toStr]
        sendLogin_behaviour [of default_credentials fresh_page no_toStr]
  by (simp add: logged_in_facts fresh_page_facts wire_transmit)

text \<open>
  C9, as the claim states it, fails: there is no connecting status, so while the first
  transport is still CONNECTING the status is \<open>disconnected\<close> and a second Connect click
  opens a second transport; and \<open>connectWebSocket\<close> called on a connected session adds a
  transport beside the open one.
\<close>

theorem second_transport_counterexample:
  "wsStatus (run no_toStr [ClickConnect None] fresh_page) = St_disconnected
   \<and> map readyState (sockets (run no_toStr [ClickConnect None] fresh_page)) =
       [CONNECTING]
   \<and> map readyState
        (sockets (run no_toStr [ClickConnect None, ClickConnect None] fresh_page)) =
       [CONNECTING, CONNECTING]
   \<and> wsStatus logged_in_session = St_connected
   \<and> map readyState (sockets (connectWebSocket default_credentials None logged_in_session)) =
       [OPEN, CONNECTING]"
  by (simp add: logged_in_session_eq fresh_page_eq run_defs)

text \<open>
  C9, amended. \<open>connectWebSocket\<close> has no guard: every call whose constructor succeeds
  adds a new CONNECTING transport and points \<open>wsRef\<close> at it, leaving the earlier ones as
  they are. The Connect button is what is gated: a click runs \<open>connectWebSocket\<close> while
  \<open>wsStatus\<close> is \<open>disconnected\<close> (which includes a pending connection attempt) and does
  nothing in any other status, \<open>error\<close> included.
\<close>

theorem connect_unguarded:
  "sockets (connectWebSocket cl None s) =
     sockets s @ [\<lparr>readyState = CONNECTING, transmitted = [], closure = cl\<rparr>]
   \<and> wsRef (connectWebSocket cl None s) = Some (length (sockets s))
   \<and> (wsStatus s = St_disconnected \<longrightarrow>
        dispatch toStr (ClickConnect None) s = connectWebSocket (credentials s) None s)
   \<and> (wsStatus s \<noteq> St_disconnected \<longrightarrow> dispatch toStr (ClickConnect f) s = s)"
  by (simp add: connectWebSocket_def dispatch_def handle_def effects_def)

theorem connect_unguarded_witness:
  "wsStatus fresh_page = St_disconnected
   \<and> map readyState (sockets (dispatch no_toStr (ClickConnect None) fresh_page)) =
       [CONNECTING]
   \<and> wsStatus logged_in_session \<noteq> St_disconnected
   \<and> dispatch no_toStr (ClickConnect None) logged_in_session = logged_in_session"
  using connect_unguarded [of default_credentials fresh_page no_toStr None]
        connect_unguarded [of default_credentials logged_in_session no_toStr None]
  by (simp add: logged_in_facts fresh_page_facts)

text \<open>
  C4. \<open>disconnectWebSocket\<close> sets \<open>isLoggedIn\<close> false, empties the subscription list and
  the market data, and removes both persisted keys; but the render that follows runs the
  saving effects, because \<open>setSubscribedTokens([])\<close> stored a new array and, when the
  session was logged in, \<open>isLoggedIn\<close> changed. After the disconnect the subscriptions key
  holds the empty list again, and the login flag holds \<open>false\<close> whenever the session was
  logged in: the keys are not removed from the store.
\<close>

theorem disconnect_outcome:
  "\<not> isLoggedIn (effects s (disconnectWebSocket s))
   \<and> subscribedTokens (effects s (disconnectWebSocket s)) = []
   \<and> marketData (effects s (disconnectWebSocket s)) = Map.empty
   \<and> localStorage (disconnectWebSocket s) STORAGE_KEYS_subscriptions = None
   \<and> localStorage (disconnectWebSocket s) STORAGE_KEYS_wasLoggedIn = None
   \<and> localStorage (effects s (disconnectWebSocket s)) STORAGE_KEYS_subscriptions =
       Some (StoredSubs [])
   \<and> localStorage (effects s (disconnectWebSocket s)) STORAGE_KEYS_wasLoggedIn =
       (if isLoggedIn s then Some (StoredText ''false'') else None)"
  by (simp add: effects_def disconnectWebSocket_def Let_def removeItem_def setItem_def
        setSubscribedTokens_def ws_close_def storage_keys split: option.splits)

theorem disconnect_outcome_witness:
  "localStorage (dispatch no_toStr ClickDisconnect both_kinds_session)
      STORAGE_KEYS_subscriptions = Some (StoredSubs [])
   \<and> localStorage (dispatch no_toStr ClickDisconnect both_kinds_session)
      STORAGE_KEYS_wasLoggedIn = Some (StoredText ''false'')"
  using disconnect_outcome [of both_kinds_session]
  by (simp add: dispatch_def handle_def both_kinds_session_eq)

section \<open>Subscription registry and replay\<close>

lemma merge_subscriptions_registered:
  "set newSubs \<subseteq> set prev \<Longrightarrow> merge_subscriptions prev newSubs = prev"
  by (auto simp: merge_subscriptions_def filter_empty_conv)

lemma merge_subscriptions_distinct:
  "distinct prev \<Longrightarrow> distinct newSubs \<Longrightarrow> distinct (merge_subscriptions prev newSubs)"
  by (auto simp: merge_subscriptions_def)

lemma subscribeToken_open:
  assumes "is_open s" and "isLoggedIn s"
  shows "subscribedTokens (subscribeToken s) =
           merge_subscriptions (subscribedTokens s)
             (map (\<lambda>t. \<lparr>token = t, stype = streamingType s\<rparr>) (parse_tokens (newToken s)))"
    and "wire (subscribeToken s) =
           wire s @ map (\<lambda>t. data_request subscribe (credentials s) t (streamingType s))
                      (parse_tokens (newToken s))"
proof -
  let ?mk = "\<lambda>t. data_request subscribe (credentials s) t (streamingType s)"
  let ?t = "send_all ?mk (\<lambda>t. Pretty (?mk t)) (parse_tokens (newToken s)) s"
  have eq: "subscribeToken s =
      (setSubscribedTokens (merge_subscriptions (subscribedTokens s)
          (map (\<lambda>t. \<lparr>token = t, stype = streamingType s\<rparr>) (parse_tokens (newToken s)))) ?t)
        \<lparr>pendingSubscriptionsRef := merge_subscriptions (subscribedTokens s)
          (map (\<lambda>t. \<lparr>token = t, stype = streamingType s\<rparr>) (parse_tokens (newToken s))),
         newToken := []\<rparr>"
    using assms by (simp add: subscribeToken_def forEach_send_open Let_def)
  show "subscribedTokens (subscribeToken s) =
           merge_subscriptions (subscribedTokens s)
             (map (\<lambda>t. \<lparr>token = t, stype = streamingType s\<rparr>) (parse_tokens (newToken s)))"
    unfolding eq by (simp add: setSubscribedTokens_def)
  have "wire (subscribeToken s) = wire ?t"
    unfolding eq by (rule wire_eqI) (simp_all add: setSubscribedTokens_def)
  then show "wire (subscribeToken s) = wire s @ map ?mk (parse_tokens (newToken s))"
    using send_all_wire [OF assms(1)] by simp
qed

lemma unsubscribeToken_distinct:
  "distinct (subscribedTokens s) \<Longrightarrow> distinct (subscribedTokens (unsubscribeToken tok ty s))"
  by (simp add: unsubscribeToken_def ws_send_open addMessage_def Let_def
        setSubscribedTokens_def)

text \<open>The key \<open>`${token}-${type}`\<close> identifies the pair: the four kind names end differently.\<close>

lemma sub_key_inj: "sub_key a = sub_key b \<Longrightarrow> a = b"
proof -
  assume k: "sub_key a = sub_key b"
  then have "last (sub_key a) = last (sub_key b)"
    by simp
  then have ty: "stype a = stype b"
    by (cases "stype a"; cases "stype b"; simp add: sub_key_def)
  then have "token a = token b"
    using k by (simp add: sub_key_def)
  then show "a = b"
    using ty by simp
qed

text \<open>
  C5. \<open>subscribeToken\<close> invoked while not logged in, or while the transport is not open,
  is rejected: it appends one error entry to the log (\<open>Please login first\<close> when not
  logged in, else \<open>Not connected\<close>) and does nothing else. No frame goes out on any
  socket, the subscription list and its replay copy are untouched, and the render that
  follows runs no saving effect, so \<open>localStorage\<close> is untouched as well.
\<close>

theorem subscribe_rejected:
  "\<not> isLoggedIn s \<or> \<not> is_open s \<Longrightarrow>
     subscribeToken s =
       s\<lparr>messages := messages s @
           [\<lparr>mtype = Error,
             content = Text (if \<not> isLoggedIn s then ''Please login first''
                             else ''Not connected'')\<rparr>]\<rparr>
     \<and> sockets (subscribeToken s) = sockets s
     \<and> subscribedTokens (subscribeToken s) = subscribedTokens s
     \<and> pendingSubscriptionsRef (subscribeToken s) = pendingSubscriptionsRef s
     \<and> effects s (subscribeToken s) = subscribeToken s"
  by (auto simp: subscribeToken_def addMessage_def effects_def)

theorem subscribe_rejected_witness:
  "\<not> isLoggedIn fresh_page
   \<and> subscribeToken fresh_page =
       fresh_page\<lparr>messages :=
           [\<lparr>mtype = Error, content = Text ''Please login first''\<rparr>]\<rparr>
   \<and> sockets (subscribeToken fresh_page) = []
   \<and> subscribedTokens (subscribeToken fresh_page) = []"
  using subscribe_rejected [of fresh_page]
  by (simp add: fresh_page_eq)

text \<open>
  C6 fails when one subscribe call names the same token twice: \<open>existing\<close> is built from
  the list before the call only, so both copies pass the filter and the list ends with
  two identical (token, kind) entries. Against entries already registered the filter does
  its work (\<open>merge_subscriptions_registered\<close>, \<open>merge_subscriptions_distinct\<close>), the
  requests go out all the same (\<open>subscribeToken_open\<close>), and unsubscribing keeps a
  duplicate-free list duplicate-free (\<open>unsubscribeToken_distinct\<close>).
\<close>

theorem duplicate_in_batch:
  "subscribedTokens
     (run no_toStr [EditNewToken ''NSECM:2885,NSECM:2885'', ClickSubscribe] logged_in_session) =
     [\<lparr>token = ''NSECM:2885'', stype = ltpinfo\<rparr>, \<lparr>token = ''NSECM:2885'', stype = ltpinfo\<rparr>]"
  by (simp add: logged_in_session_eq run_defs)

theorem duplicate_in_batch_witness:
  "\<not> distinct (subscribedTokens
     (run no_toStr [EditNewToken ''NSECM:2885,NSECM:2885'', ClickSubscribe] logged_in_session))"
  using duplicate_in_batch by simp





text \<open>
  C10. \<open>unsubscribeToken(token, kind)\<close> with the transport OPEN deletes the market record
  under \<open>token\<close> whatever the kind, while it removes from the subscription list only the
  entries with both that token and that kind: an entry for the same token under another
  kind stays registered and has lost its market record.
\<close>

theorem unsubscribe_deletes_by_token:
  "is_open s \<Longrightarrow>
     marketData (unsubscribeToken tok ty s) = (marketData s)(tok := None)
     \<and> subscribedTokens (unsubscribeToken tok ty s) =
         filter (\<lambda>i. \<not> (token i = tok \<and> stype i = ty)) (subscribedTokens s)
     \<and> (\<forall>ty'. ty' \<noteq> ty \<and> \<lparr>token = tok, stype = ty'\<rparr> \<in> set (subscribedTokens s) \<longrightarrow>
           \<lparr>token = tok, stype = ty'\<rparr> \<in> set (subscribedTokens (unsubscribeToken tok ty s))
           \<and> marketData (unsubscribeToken tok ty s) tok = None)"
  by (simp add: unsubscribeToken_def ws_send_open Let_def setSubscribedTokens_def addMessage_def)

theorem unsubscribe_deletes_by_token_witness:
  "is_open both_kinds_session
   \<and> marketPicture \<noteq> ltpinfo
   \<and> \<lparr>token = ''NSECM:2885'', stype = marketPicture\<rparr> \<in> set (subscribedTokens both_kinds_session)
   \<and> marketData both_kinds_session ''NSECM:2885'' \<noteq> None
   \<and> subscribedTokens (unsubscribeToken ''NSECM:2885'' ltpinfo both_kinds_session) =
        [\<lparr>token = ''NSECM:2885'', stype = marketPicture\<rparr>]
   \<and> marketData (unsubscribeToken ''NSECM:2885'' ltpinfo both_kinds_session) ''NSECM:2885'' = None"
  using unsubscribe_deletes_by_token [of both_kinds_session "''NSECM:2885''" ltpinfo]
  by (simp add: both_kinds_session_eq is_open_def current_socket_def)

section \<open>Market data store\<close>

lemma onmessage_data:
  assumes "\<not> is_login_confirmation (m ''response'')"
  shows "onmessage toStr cl data (Some (JObj m)) s =
           handle_market toStr (JObj m) (m ''response'') (addMessage Received (Pretty (JObj m)) s)"
  using assms by (simp add: onmessage_def onmessage_body_def)

lemma handle_market_store:
  assumes "extract_market parsed r = (Some mi, Some sy)" and "truthy (Some sy)"
  shows "marketData (handle_market toStr parsed r s) =
           (marketData s)(propertyKey toStr sy \<mapsto> normalized sy mi)"
  using assms by (simp add: handle_market_def)

lemma normalized_present: "own_fields mi k = Some v \<Longrightarrow> normalized sy mi k = Some v"
  by (simp add: normalized_def Let_def map_add_def)

lemma or_null_nullish:
  "or_null (nullish a b) = (if or_null a = JNull then or_null b else or_null a)"
  by (cases "(a, b)" rule: nullish.cases) (simp_all add: or_null_def)

text \<open>
  What the stored \<open>changePercent\<close> and \<open>volume\<close> are: the frame's own field of that name
  whenever the frame has one (the spread is written last), and only otherwise the
  primary alias, or \<open>null\<close>.
\<close>

lemma normalized_changePercent:
  "normalized sy mi ''changePercent'' =
     (case own_fields mi ''changePercent'' of
        Some v \<Rightarrow> Some v
      | None \<Rightarrow> Some (or_null (own_fields mi ''p_change'')))"
  by (simp add: normalized_def Let_def map_add_def or_null_nullish split: option.splits)
     (simp add: or_null_def)

lemma normalized_volume:
  "normalized sy mi ''volume'' =
     (case own_fields mi ''volume'' of
        Some v \<Rightarrow> Some v
      | None \<Rightarrow> Some (or_null (own_fields mi ''tot_vol'')))"
  by (simp add: normalized_def Let_def map_add_def or_null_nullish split: option.splits)
     (simp add: or_null_def)

lemma or_null_simps: "or_null None = JNull" "or_null (Some v) = v"
  by (simp_all add: or_null_def)

lemma or_null_canonical:
  "or_null (nullish x (Some JNull)) = or_null x"
  by (simp add: or_null_nullish or_null_simps)

lemma or_null_alias: "or_null (nullish x None) = or_null x"
  by (simp add: or_null_nullish or_null_simps)

lemma normalized_field:
  "normalized sy mi k =
     (case own_fields mi k of
        Some v \<Rightarrow> Some v
      | None \<Rightarrow>
          if k = ''symbol'' then Some sy
          else if k \<in> set [''ltp'', ''change'', ''high'', ''low'', ''open'', ''close'']
          then Some JNull
          else if k = ''changePercent'' then Some (or_null (own_fields mi ''p_change''))
          else if k = ''volume'' then Some (or_null (own_fields mi ''tot_vol''))
          else None)"
proof (cases "own_fields mi k")
  case (Some v)
  then show ?thesis by (simp add: normalized_def Let_def map_add_def)
next
  case None
  have "normalized sy mi k =
     [''symbol'' \<mapsto> sy,
      ''ltp'' \<mapsto> or_null (own_fields mi ''ltp''),
      ''change'' \<mapsto> or_null (own_fields mi ''change''),
      ''changePercent'' \<mapsto> or_null (nullish (own_fields mi ''p_change'') (own_fields mi ''changePercent'')),
      ''volume'' \<mapsto> or_null (nullish (own_fields mi ''tot_vol'') (own_fields mi ''volume'')),
      ''high'' \<mapsto> or_null (own_fields mi ''high''),
      ''low'' \<mapsto> or_null (own_fields mi ''low''),
      ''open'' \<mapsto> or_null (own_fields mi ''open''),
      ''close'' \<mapsto> or_null (own_fields mi ''close'')] k"
    using None by (simp add: normalized_def Let_def map_add_def or_null_canonical)
  also have "\<dots> = (if k = ''symbol'' then Some sy
          else if k \<in> set [''ltp'', ''change'', ''high'', ''low'', ''open'', ''close'']
          then Some JNull
          else if k = ''changePercent'' then Some (or_null (own_fields mi ''p_change''))
          else if k = ''volume'' then Some (or_null (own_fields mi ''tot_vol''))
          else None)"
    using None by (auto simp: or_null_simps or_null_alias)
  finally show ?thesis using None by simp
qed

lemma onmessage_marketData:
  assumes "extract_market (JObj m) (m ''response'') = (Some mi, Some sy)"
    and "truthy (Some sy)"
  shows "marketData (onmessage toStr cl d (Some (JObj m)) s) =
           (if replay_throws s (m ''response'') then marketData s
            else (marketData s)(propertyKey toStr sy \<mapsto> normalized sy mi))"
proof (cases "is_login_confirmation (m ''response'')")
  case False
  then show ?thesis
    using assms
    by (simp add: onmessage_data handle_market_store addMessage_def replay_throws_def)
next
  case True
  let ?s0 = "addMessage Received (Pretty (JObj m)) s"
  let ?s1 = "addMessage Success (Text ''Login successful - auto-resubscribing tokens...'')
               (?s0\<lparr>isLoggedIn := True\<rparr>)"
  have body: "onmessage_body toStr cl (JObj m) ?s0 =
      (case replay cl ?s1 of
         Inl t \<Rightarrow> Inl t
       | Inr t \<Rightarrow> Inr (handle_market toStr (JObj m) (m ''response'') t))"
    using True by (simp add: onmessage_body_def)
  have pe: "pendingSubscriptionsRef ?s1 = pendingSubscriptionsRef s"
    by (simp add: addMessage_def)
  have "handle_state (?s0\<lparr>isLoggedIn := True\<rparr>) = handle_state s"
    by (simp add: handle_state_def current_socket_def addMessage_def split: option.splits)
  then have hs: "handle_state ?s1 = handle_state s"
    by simp
  have md: "marketData ?s1 = marketData s"
    by (simp add: addMessage_def)
  show ?thesis
  proof (cases "replay_throws s (m ''response'')")
    case thr: True
    then have "replay cl ?s1 = Inl ?s1"
      using pe hs by (intro replay_throw) (simp_all add: replay_throws_def)
    then have "onmessage toStr cl d (Some (JObj m)) s = addMessage Received (Text d) ?s1"
      using body by (simp add: onmessage_def)
    then show ?thesis
      using thr md by (simp add: addMessage_def)
  next
    case ok: False
    then have "\<not> (pendingSubscriptionsRef ?s1 \<noteq> [] \<and> handle_state ?s1 = Some CONNECTING)"
      using True pe hs by (simp add: replay_throws_def)
    then obtain t where t: "replay cl ?s1 = Inr t" and mt: "marketData t = marketData ?s1"
      using replay_returns by blast
    have "onmessage toStr cl d (Some (JObj m)) s =
            handle_market toStr (JObj m) (m ''response'') t"
      using body t by (simp add: onmessage_def)
    then show ?thesis
      using ok mt md assms by (simp add: handle_market_store)
  qed
qed

text \<open>
  C1, as the claim states it, fails: after \<open>tick1\<close> (with \<open>p_change\<close> 1.2) the stored
  \<open>changePercent\<close> is 1.2; \<open>tick2\<close> carries neither alias of it, and after \<open>tick2\<close> the
  stored \<open>changePercent\<close> is \<open>null\<close>, not the 1.2 of the first frame.
\<close>

theorem merge_counterexample:
  "stored_field (run no_toStr [WsMessage 0 [] (Some tick1)] logged_in_session)
      ''NSECM:2885'' ''changePercent'' = Some (JNum 1.2)
   \<and> tick2_fields ''changePercent'' = None \<and> tick2_fields ''p_change'' = None
   \<and> stored_field (run no_toStr [WsMessage 0 [] (Some tick1), WsMessage 0 [] (Some tick2)]
         logged_in_session) ''NSECM:2885'' ''changePercent'' = Some JNull"
  by (simp add: logged_in_session_eq run_defs tick1_def tick2_def tick1_fields_def
        tick2_fields_def market_defs)

text \<open>
  C1, amended. A frame that yields the symbol \<open>sy\<close> is ingested unless it is a login
  confirmation whose replay throws (\<open>replay_throws\<close>), in which case the store is left as
  it was. The first ingested frame creates the record under the symbol's key, and a
  later ingested frame replaces the whole record rather than merging into it: the record
  is the normalization of the latest ingested frame alone, whatever the earlier frame
  held. In that record every field present in the frame has the frame's value; of the
  fields absent from the frame, \<open>symbol\<close> is the symbol, \<open>ltp\<close>, \<open>change\<close>, \<open>high\<close>, \<open>low\<close>,
  \<open>open\<close> and \<open>close\<close> are \<open>null\<close>, \<open>changePercent\<close> is the frame's \<open>p_change\<close> or \<open>null\<close>,
  \<open>volume\<close> is the frame's \<open>tot_vol\<close> or \<open>null\<close>, and every other field is absent.
\<close>

theorem ingest_replaces:
  assumes "extract_market (JObj m1) (m1 ''response'') = (Some mi1, Some sy)"
    and "extract_market (JObj m2) (m2 ''response'') = (Some mi2, Some sy)"
    and "truthy (Some sy)"
  shows "marketData (onmessage toStr cl d1 (Some (JObj m1)) s) =
           (if replay_throws s (m1 ''response'') then marketData s
            else (marketData s)(propertyKey toStr sy \<mapsto> normalized sy mi1))
       \<and> marketData (onmessage toStr cl' d2 (Some (JObj m2))
                        (onmessage toStr cl d1 (Some (JObj m1)) s)) =
           (if replay_throws (onmessage toStr cl d1 (Some (JObj m1)) s) (m2 ''response'')
            then marketData (onmessage toStr cl d1 (Some (JObj m1)) s)
            else (marketData s)(propertyKey toStr sy \<mapsto> normalized sy mi2))
       \<and> (\<forall>k. normalized sy mi2 k =
             (case own_fields mi2 k of
                Some v \<Rightarrow> Some v
              | None \<Rightarrow>
                  if k = ''symbol'' then Some sy
                  else if k \<in> set [''ltp'', ''change'', ''high'', ''low'', ''open'', ''close'']
                  then Some JNull
                  else if k = ''changePercent'' then Some (or_null (own_fields mi2 ''p_change''))
                  else if k = ''volume'' then Some (or_null (own_fields mi2 ''tot_vol''))
                  else None))"
proof -
  let ?s1 = "onmessage toStr cl d1 (Some (JObj m1)) s"
  have a: "marketData ?s1 =
           (if replay_throws s (m1 ''response'') then marketData s
            else (marketData s)(propertyKey toStr sy \<mapsto> normalized sy mi1))"
    by (rule onmessage_marketData [OF assms(1,3)])
  have b: "marketData (onmessage toStr cl' d2 (Some (JObj m2)) ?s1) =
           (if replay_throws ?s1 (m2 ''response'') then marketData ?s1
            else (marketData ?s1)(propertyKey toStr sy \<mapsto> normalized sy mi2))"
    by (rule onmessage_marketData [OF assms(2,3)])
  have c: "(marketData ?s1)(propertyKey toStr sy \<mapsto> normalized sy mi2) =
           (marketData s)(propertyKey toStr sy \<mapsto> normalized sy mi2)"
    by (simp add: a)
  show ?thesis
    using a b c normalized_field [of sy mi2] by simp
qed

theorem ingest_replaces_witness:
  "\<not> replay_throws logged_in_session (opt_chain (Some tick1) ''response'')
   \<and> marketData (onmessage no_toStr default_credentials [] (Some tick1) logged_in_session) =
      [''NSECM:2885'' \<mapsto> normalized (JStr ''NSECM:2885'') (JObj tick1_fields)]
   \<and> marketData (onmessage no_toStr default_credentials [] (Some tick2)
      (onmessage no_toStr default_credentials [] (Some tick1) logged_in_session)) =
      [''NSECM:2885'' \<mapsto> normalized (JStr ''NSECM:2885'') (JObj tick2_fields)]
   \<and> normalized (JStr ''NSECM:2885'') (JObj tick2_fields) ''ltp'' = Some (JNum 102)
   \<and> normalized (JStr ''NSECM:2885'') (JObj tick2_fields) ''changePercent'' = Some JNull
   \<and> normalized (JStr ''NSECM:2885'') (JObj tick2_fields) ''bid'' = None"
  using ingest_replaces [of "[''response'' \<mapsto> JObj [''data'' \<mapsto> JObj tick1_fields]]"
       "JObj tick1_fields" "JStr ''NSECM:2885''"
       "[''response'' \<mapsto> JObj [''data'' \<mapsto> JObj tick2_fields]]"
       "JObj tick2_fields" no_toStr default_credentials "[]" logged_in_session
       default_credentials "[]"]
  by (simp add: tick1_def tick2_def tick1_fields_def tick2_fields_def
        is_login_confirmation_def replay_throws_def logged_in_session_eq extract_market_def
        or_null_def)

text \<open>
  C7 fails on a frame that carries both aliases: \<open>tick_both\<close> has \<open>p_change\<close> 1.2 and
  \<open>changePercent\<close> 5, and the stored \<open>changePercent\<close> is 5. The object literal computes
  \<open>p_change ?? changePercent ?? null\<close> and then spreads the frame over it, so the frame's
  own \<open>changePercent\<close> overwrites the preferred alias (see \<open>normalized_changePercent\<close>;
  \<open>volume\<close> behaves alike).
\<close>

theorem alias_precedence_lost:
  "stored_field (run no_toStr [WsMessage 0 [] (Some tick_both)] logged_in_session)
      ''NSECM:2885'' ''changePercent'' = Some (JNum 5)
   \<and> tick_both_fields ''p_change'' = Some (JNum 1.2)"
  by (simp add: logged_in_session_eq run_defs tick_both_def tick_both_fields_def market_defs)

theorem alias_precedence_lost_witness:
  "stored_field (run no_toStr [WsMessage 0 [] (Some tick_both)] logged_in_session)
      ''NSECM:2885'' ''changePercent'' \<noteq> tick_both_fields ''p_change''"
  using alias_precedence_lost by simp

end
